theory Spec2Isabelle
  imports Complex_Main
begin

section \<open>Tensors and the tensor library's operations\<close>

text \<open>
  The repository is one file, \<^verbatim>\<open>src/modules/model.py\<close>: four classes that compose layers
  of the tensor library.  A tensor is modelled by its shape and by its element at each
  multi-index.  The shape rules of the library's operations, and the errors they raise on a
  shape they refuse, are written out.  The element arithmetic (floating point, and the values
  of the learned parameters) is left open: the element type is a type variable, each
  parameterised layer carries the function its parameters determine, and the elementwise
  kernels and the random generator are the fields of a record passed to every forward call.
  Sizes are natural numbers, as the library refuses a negative size when a layer is built.
\<close>

record 'a tensor =
  shape :: "nat list"
  elem :: "nat list \<Rightarrow> 'a"

datatype error =
    IndexError nat nat
  | ConvRank "nat list"
  | ConvChannels nat nat
  | ConvStride
  | ConvKernel nat nat nat
  | ConvEmptyInput nat nat
  | LayerNormShape nat "nat list"
  | LinearShape nat "nat list"
  | GRURank "nat list"
  | GRUInputSize nat nat
  | GRUEmptySequence
  | ViewSize "nat list" "nat list"
  | BroadcastError "nat list" "nat list"

definition and_then :: "error + 'b \<Rightarrow> ('b \<Rightarrow> error + 'c) \<Rightarrow> error + 'c" where
  "and_then r f = (case r of Inl e \<Rightarrow> Inl e | Inr v \<Rightarrow> f v)"

text \<open>
  The elementwise kernels and the random generator: GELU on one element, the addition of two
  elements, the draw of a keep-mask for a shape from the generator (which returns the
  generator's next state), and what dropout with probability \<open>p\<close> makes of one element that
  the mask keeps or drops.
\<close>

record ('a, 'g) numerics =
  gelu_elem :: "'a \<Rightarrow> 'a"
  add_elem :: "'a \<Rightarrow> 'a \<Rightarrow> 'a"
  bernoulli :: "'g \<Rightarrow> real \<Rightarrow> nat list \<Rightarrow> (nat list \<Rightarrow> bool) \<times> 'g"
  mask_elem :: "real \<Rightarrow> bool \<Rightarrow> 'a \<Rightarrow> 'a"

type_synonym 'a vec_w = "'a list \<Rightarrow> 'a list"
type_synonym 'a conv_w = "'a tensor \<Rightarrow> nat list \<Rightarrow> 'a"
type_synonym 'a gru_w = "'a tensor \<Rightarrow> (nat list \<Rightarrow> 'a) \<times> (nat list \<Rightarrow> 'a)"

subsection \<open>transpose, contiguous, size, view\<close>

definition swap :: "nat \<Rightarrow> nat \<Rightarrow> 'b list \<Rightarrow> 'b list" where
  "swap i j xs = xs[i := xs ! j, j := xs ! i]"

definition transpose_shape :: "nat \<Rightarrow> nat \<Rightarrow> nat list \<Rightarrow> error + nat list" where
  "transpose_shape d0 d1 s =
     (let r = length s in
      if \<not> d0 < r then Inl (IndexError d0 r)
      else if \<not> d1 < r then Inl (IndexError d1 r)
      else Inr (swap d0 d1 s))"

definition transpose_t :: "nat \<Rightarrow> nat \<Rightarrow> 'a tensor \<Rightarrow> error + 'a tensor" where
  "transpose_t d0 d1 x =
     and_then (transpose_shape d0 d1 (shape x))
       (\<lambda>s. Inr \<lparr>shape = s, elem = (\<lambda>i. elem x (swap d0 d1 i))\<rparr>)"

definition contiguous :: "'a tensor \<Rightarrow> 'a tensor" where
  "contiguous x = x"

text \<open>\<^verbatim>\<open>sizes[d]\<close> on the tuple that \<^verbatim>\<open>x.size()\<close> returns.\<close>

definition index_at :: "nat list \<Rightarrow> nat \<Rightarrow> error + nat" where
  "index_at sizes d =
     (if d < length sizes then Inr (sizes ! d) else Inl (IndexError d (length sizes)))"

definition ravel :: "nat list \<Rightarrow> nat list \<Rightarrow> nat" where
  "ravel s i = foldl (\<lambda>a (d, k). a * d + k) 0 (zip s i)"

fun unravel :: "nat list \<Rightarrow> nat \<Rightarrow> nat list" where
  "unravel [] n = []"
| "unravel (d # ds) n = (n div prod_list ds) # unravel ds (n mod prod_list ds)"

text \<open>
  \<open>view\<close> reads the same elements, in row-major order, under a new shape with as many
  elements.  (The tensors the model views are contiguous.)
\<close>

definition view_shape :: "nat list \<Rightarrow> nat list \<Rightarrow> error + nat list" where
  "view_shape new s = (if prod_list new = prod_list s then Inr new else Inl (ViewSize s new))"

definition view :: "nat list \<Rightarrow> 'a tensor \<Rightarrow> error + 'a tensor" where
  "view new x =
     and_then (view_shape new (shape x))
       (\<lambda>s. Inr \<lparr>shape = s, elem = (\<lambda>i. elem x (unravel (shape x) (ravel s i)))\<rparr>)"

subsection \<open>In-place addition with broadcasting\<close>

text \<open>
  \<^verbatim>\<open>x += r\<close> keeps the shape of \<open>x\<close>; the library broadcasts \<open>r\<close> to it, aligning the shapes at
  their last axes, where an axis of \<open>r\<close> must have the length of the axis of \<open>x\<close> or length 1.
  The two arguments of \<open>broadcastable\<close> are the reversed shapes of \<open>r\<close> and of \<open>x\<close>.
\<close>

fun broadcastable :: "nat list \<Rightarrow> nat list \<Rightarrow> bool" where
  "broadcastable [] ds = True"
| "broadcastable (r # rs) [] = False"
| "broadcastable (r # rs) (d # ds) = ((r = d \<or> r = 1) \<and> broadcastable rs ds)"

definition broadcast_index :: "nat list \<Rightarrow> nat list \<Rightarrow> nat list" where
  "broadcast_index rs i = rev (map2 (\<lambda>r k. if r = 1 then 0 else k) (rev rs) (rev i))"

definition iadd_shape :: "nat list \<Rightarrow> nat list \<Rightarrow> error + nat list" where
  "iadd_shape s r =
     (if broadcastable (rev r) (rev s) then Inr s else Inl (BroadcastError s r))"

definition iadd :: "('a, 'g) numerics \<Rightarrow> 'a tensor \<Rightarrow> 'a tensor \<Rightarrow> error + 'a tensor" where
  "iadd num x r =
     and_then (iadd_shape (shape x) (shape r))
       (\<lambda>s. Inr \<lparr>shape = s,
                  elem = (\<lambda>i. add_elem num (elem x i) (elem r (broadcast_index (shape r) i)))\<rparr>)"

subsection \<open>GELU and Dropout\<close>

definition gelu :: "('a, 'g) numerics \<Rightarrow> 'a tensor \<Rightarrow> 'a tensor" where
  "gelu num x = \<lparr>shape = shape x, elem = (\<lambda>i. gelu_elem num (elem x i))\<rparr>"

record Dropout =
  drop_p :: real

definition Dropout_init :: "real \<Rightarrow> Dropout" where
  "Dropout_init p = \<lparr>drop_p = p\<rparr>"

text \<open>
  Dropout returns its input when the module is in evaluation mode or its probability is 0;
  otherwise it draws a mask from the generator.
\<close>

definition Dropout_forward ::
  "('a, 'g) numerics \<Rightarrow> bool \<Rightarrow> Dropout \<Rightarrow> 'a tensor \<Rightarrow> 'g \<Rightarrow> 'a tensor \<times> 'g" where
  "Dropout_forward num training d x g =
     (if training \<and> drop_p d \<noteq> 0
      then (case bernoulli num g (drop_p d) (shape x) of
              (m, g') \<Rightarrow>
                (\<lparr>shape = shape x, elem = (\<lambda>i. mask_elem num (drop_p d) (m i) (elem x i))\<rparr>, g'))
      else (x, g))"

subsection \<open>LayerNorm and Linear\<close>

text \<open>
  Both act on the vectors along the last axis, one vector at a time, and refuse an input whose
  last axis has not the configured length.  \<open>ln_apply\<close> and \<open>lin_apply\<close> are what the layer's
  parameters make of one such vector.
\<close>

record 'a LayerNorm =
  ln_normalized_shape :: nat
  ln_apply :: "'a vec_w"

definition LayerNorm_init :: "nat \<Rightarrow> 'a vec_w \<Rightarrow> 'a LayerNorm" where
  "LayerNorm_init n w = \<lparr>ln_normalized_shape = n, ln_apply = w\<rparr>"

definition trailing_vector :: "'a tensor \<Rightarrow> nat list \<Rightarrow> 'a list" where
  "trailing_vector x i = map (\<lambda>j. elem x (butlast i @ [j])) [0..<last (shape x)]"

definition LayerNorm_shape :: "'a LayerNorm \<Rightarrow> nat list \<Rightarrow> error + nat list" where
  "LayerNorm_shape l s =
     (if s \<noteq> [] \<and> last s = ln_normalized_shape l then Inr s
      else Inl (LayerNormShape (ln_normalized_shape l) s))"

definition LayerNorm_forward :: "'a LayerNorm \<Rightarrow> 'a tensor \<Rightarrow> error + 'a tensor" where
  "LayerNorm_forward l x =
     and_then (LayerNorm_shape l (shape x))
       (\<lambda>s. Inr \<lparr>shape = s, elem = (\<lambda>i. ln_apply l (trailing_vector x i) ! last i)\<rparr>)"

record 'a Linear =
  lin_in_features :: nat
  lin_out_features :: nat
  lin_apply :: "'a vec_w"

definition Linear_init :: "nat \<Rightarrow> nat \<Rightarrow> 'a vec_w \<Rightarrow> 'a Linear" where
  "Linear_init n_in n_out w = \<lparr>lin_in_features = n_in, lin_out_features = n_out, lin_apply = w\<rparr>"

definition Linear_shape :: "'a Linear \<Rightarrow> nat list \<Rightarrow> error + nat list" where
  "Linear_shape l s =
     (if s \<noteq> [] \<and> last s = lin_in_features l then Inr (butlast s @ [lin_out_features l])
      else Inl (LinearShape (lin_in_features l) s))"

definition Linear_forward :: "'a Linear \<Rightarrow> 'a tensor \<Rightarrow> error + 'a tensor" where
  "Linear_forward l x =
     and_then (Linear_shape l (shape x))
       (\<lambda>s. Inr \<lparr>shape = s, elem = (\<lambda>i. lin_apply l (trailing_vector x i) ! last i)\<rparr>)"

subsection \<open>Conv2d\<close>

text \<open>
  A square kernel, one stride and one padding for both spatial axes, dilation 1.  The input is
  (batch, channel, height, width), or (channel, height, width) without a batch axis.  The
  library refuses, in this order, a stride of 0, a channel count other than the configured
  one, a padded input smaller than the kernel, and an empty spatial axis.
\<close>

record 'a Conv2d =
  conv_in_channels :: nat
  conv_out_channels :: nat
  conv_kernel_size :: nat
  conv_stride :: nat
  conv_padding :: nat
  conv_apply :: "'a conv_w"

definition Conv2d_init :: "nat \<Rightarrow> nat \<Rightarrow> nat \<Rightarrow> nat \<Rightarrow> nat \<Rightarrow> 'a conv_w \<Rightarrow> 'a Conv2d" where
  "Conv2d_init c_in c_out k s p w =
     \<lparr>conv_in_channels = c_in, conv_out_channels = c_out, conv_kernel_size = k,
      conv_stride = s, conv_padding = p, conv_apply = w\<rparr>"

definition conv_out :: "'a Conv2d \<Rightarrow> nat \<Rightarrow> nat" where
  "conv_out c n = (n + 2 * conv_padding c - conv_kernel_size c) div conv_stride c + 1"

definition conv_spatial :: "'a Conv2d \<Rightarrow> nat \<Rightarrow> nat \<Rightarrow> nat \<Rightarrow> error + nat list" where
  "conv_spatial c ch h w =
     (if conv_stride c = 0 then Inl ConvStride
      else if ch \<noteq> conv_in_channels c then Inl (ConvChannels (conv_in_channels c) ch)
      else if h + 2 * conv_padding c < conv_kernel_size c
              \<or> w + 2 * conv_padding c < conv_kernel_size c
           then Inl (ConvKernel h w (conv_kernel_size c))
      else if h = 0 \<or> w = 0 then Inl (ConvEmptyInput h w)
      else Inr [conv_out_channels c, conv_out c h, conv_out c w])"

fun Conv2d_shape :: "'a Conv2d \<Rightarrow> nat list \<Rightarrow> error + nat list" where
  "Conv2d_shape c [n, ch, h, w] = and_then (conv_spatial c ch h w) (\<lambda>s. Inr (n # s))"
| "Conv2d_shape c [ch, h, w] = conv_spatial c ch h w"
| "Conv2d_shape c s = Inl (ConvRank s)"

definition Conv2d_forward :: "'a Conv2d \<Rightarrow> 'a tensor \<Rightarrow> error + 'a tensor" where
  "Conv2d_forward c x =
     and_then (Conv2d_shape c (shape x)) (\<lambda>s. Inr \<lparr>shape = s, elem = conv_apply c x\<rparr>)"

subsection \<open>GRU\<close>

text \<open>
  The input is (batch, sequence, feature) when \<open>batch_first\<close> is set, (sequence, batch, feature)
  otherwise, or (sequence, feature) without a batch axis.  The library refuses a last axis
  other than the configured input size and a sequence of length 0.  It returns the output
  sequence, whose last axis has the hidden size once for each direction, and the final hidden
  state.
\<close>

record 'a GRU =
  gru_input_size :: nat
  gru_hidden_size :: nat
  gru_num_layers :: nat
  gru_batch_first :: bool
  gru_bidirectional :: bool
  gru_apply :: "'a gru_w"

definition GRU_init :: "nat \<Rightarrow> nat \<Rightarrow> nat \<Rightarrow> bool \<Rightarrow> bool \<Rightarrow> 'a gru_w \<Rightarrow> 'a GRU" where
  "GRU_init n_in n_hidden n_layers b_first bidir w =
     \<lparr>gru_input_size = n_in, gru_hidden_size = n_hidden, gru_num_layers = n_layers,
      gru_batch_first = b_first, gru_bidirectional = bidir, gru_apply = w\<rparr>"

definition gru_directions :: "'a GRU \<Rightarrow> nat" where
  "gru_directions r = (if gru_bidirectional r then 2 else 1)"

fun GRU_shapes :: "'a GRU \<Rightarrow> nat list \<Rightarrow> error + (nat list \<times> nat list)" where
  "GRU_shapes r [d0, d1, f] =
     (if f \<noteq> gru_input_size r then Inl (GRUInputSize (gru_input_size r) f)
      else if (if gru_batch_first r then d1 else d0) = 0 then Inl GRUEmptySequence
      else Inr ([d0, d1, gru_directions r * gru_hidden_size r],
                [gru_directions r * gru_num_layers r, if gru_batch_first r then d0 else d1,
                 gru_hidden_size r]))"
| "GRU_shapes r [d0, f] =
     (if f \<noteq> gru_input_size r then Inl (GRUInputSize (gru_input_size r) f)
      else if d0 = 0 then Inl GRUEmptySequence
      else Inr ([d0, gru_directions r * gru_hidden_size r],
                [gru_directions r * gru_num_layers r, gru_hidden_size r]))"
| "GRU_shapes r s = Inl (GRURank s)"

definition GRU_forward :: "'a GRU \<Rightarrow> 'a tensor \<Rightarrow> error + ('a tensor \<times> 'a tensor)" where
  "GRU_forward r x =
     and_then (GRU_shapes r (shape x))
       (\<lambda>(s, sh). Inr (\<lparr>shape = s, elem = fst (gru_apply r x)\<rparr>,
                       \<lparr>shape = sh, elem = snd (gru_apply r x)\<rparr>))"

section \<open>The classes of \<^verbatim>\<open>model.py\<close>\<close>

text \<open>
  Each class is a record of its sub-layers, an \<open>init\<close> function that builds it from the
  constructor's arguments, and a \<open>forward\<close> function.  The constructors take one argument more
  than the source's: the functions that the layers' parameter values determine (the library
  initialises the parameters at random, and training changes them).  A forward call is given
  the numeric kernels, the \<open>training\<close> flag of the module, and, where a dropout is on the
  path, the random generator's state, which it returns updated.  The layer counts are natural
  numbers: \<^verbatim>\<open>range\<close> of a negative count is empty, as \<^verbatim>\<open>range(0)\<close> is.  The constructors
  are total: an argument that the library refuses when the layer is built, such as a dropout
  probability outside the unit interval, is not told apart here.
\<close>

subsection \<open>CNNLayerNorm\<close>

record 'a CNNLayerNorm =
  layer_norm :: "'a LayerNorm"

definition CNNLayerNorm_init :: "nat \<Rightarrow> 'a vec_w \<Rightarrow> 'a CNNLayerNorm" where
  "CNNLayerNorm_init n_feats w = \<lparr>layer_norm = LayerNorm_init n_feats w\<rparr>"

definition CNNLayerNorm_forward :: "'a CNNLayerNorm \<Rightarrow> 'a tensor \<Rightarrow> error + 'a tensor" where
  "CNNLayerNorm_forward m x =
     and_then (transpose_t 2 3 x) (\<lambda>x1.
     and_then (LayerNorm_forward (layer_norm m) (contiguous x1)) (\<lambda>x2.
     and_then (transpose_t 2 3 x2) (\<lambda>x3.
     Inr (contiguous x3))))"

subsection \<open>ResidualCNN\<close>

record 'a ResidualCNN =
  cnn1 :: "'a Conv2d"
  cnn2 :: "'a Conv2d"
  dropout1 :: Dropout
  dropout2 :: Dropout
  layer_norm1 :: "'a CNNLayerNorm"
  layer_norm2 :: "'a CNNLayerNorm"

record 'a ResidualCNN_weights =
  w_cnn1 :: "'a conv_w"
  w_cnn2 :: "'a conv_w"
  w_layer_norm1 :: "'a vec_w"
  w_layer_norm2 :: "'a vec_w"

definition ResidualCNN_init ::
  "nat \<Rightarrow> nat \<Rightarrow> nat \<Rightarrow> nat \<Rightarrow> real \<Rightarrow> nat \<Rightarrow> 'a ResidualCNN_weights \<Rightarrow> 'a ResidualCNN" where
  "ResidualCNN_init in_channels out_channels kernel' stride dropout n_feats w =
     \<lparr>cnn1 = Conv2d_init in_channels out_channels kernel' stride (kernel' div 2) (w_cnn1 w),
      cnn2 = Conv2d_init out_channels out_channels kernel' stride (kernel' div 2) (w_cnn2 w),
      dropout1 = Dropout_init dropout,
      dropout2 = Dropout_init dropout,
      layer_norm1 = CNNLayerNorm_init n_feats (w_layer_norm1 w),
      layer_norm2 = CNNLayerNorm_init n_feats (w_layer_norm2 w)\<rparr>"

definition ResidualCNN_forward ::
  "('a, 'g) numerics \<Rightarrow> bool \<Rightarrow> 'a ResidualCNN \<Rightarrow> 'a tensor \<Rightarrow> 'g \<Rightarrow> error + ('a tensor \<times> 'g)" where
  "ResidualCNN_forward num training m x g =
     (let residual = x in
      and_then (CNNLayerNorm_forward (layer_norm1 m) x) (\<lambda>x1.
      case Dropout_forward num training (dropout1 m) (gelu num x1) g of (x2, g1) \<Rightarrow>
      and_then (Conv2d_forward (cnn1 m) x2) (\<lambda>x3.
      and_then (CNNLayerNorm_forward (layer_norm2 m) x3) (\<lambda>x4.
      case Dropout_forward num training (dropout2 m) (gelu num x4) g1 of (x5, g2) \<Rightarrow>
      and_then (Conv2d_forward (cnn2 m) x5) (\<lambda>x6.
      and_then (iadd num x6 residual) (\<lambda>x7.
      Inr (x7, g2)))))))"

subsection \<open>BidirectionalGRU\<close>

record 'a BidirectionalGRU =
  BiGRU :: "'a GRU"
  birnn_layer_norm :: "'a LayerNorm"
  birnn_dropout :: Dropout

record 'a BidirectionalGRU_weights =
  w_BiGRU :: "'a gru_w"
  w_layer_norm :: "'a vec_w"

definition BidirectionalGRU_init ::
  "nat \<Rightarrow> nat \<Rightarrow> real \<Rightarrow> bool \<Rightarrow> 'a BidirectionalGRU_weights \<Rightarrow> 'a BidirectionalGRU" where
  "BidirectionalGRU_init rnn_dim hidden_size dropout batch_first w =
     \<lparr>BiGRU = GRU_init rnn_dim hidden_size 1 batch_first True (w_BiGRU w),
      birnn_layer_norm = LayerNorm_init rnn_dim (w_layer_norm w),
      birnn_dropout = Dropout_init dropout\<rparr>"

definition BidirectionalGRU_forward ::
  "('a, 'g) numerics \<Rightarrow> bool \<Rightarrow> 'a BidirectionalGRU \<Rightarrow> 'a tensor \<Rightarrow> 'g
     \<Rightarrow> error + ('a tensor \<times> 'g)" where
  "BidirectionalGRU_forward num training m x g =
     and_then (LayerNorm_forward (birnn_layer_norm m) x) (\<lambda>x1.
     and_then (GRU_forward (BiGRU m) (gelu num x1)) (\<lambda>(x2, h_n).
     Inr (Dropout_forward num training (birnn_dropout m) x2 g)))"

subsection \<open>SpeechRecognitionModel\<close>

text \<open>
  \<open>Sequential\<close> runs its modules in order, each on the output of the one before; of no
  module it is the identity.  The classifier is the Sequential of a Linear, GELU, a Dropout
  and a Linear.
\<close>

fun Sequential ::
  "('m \<Rightarrow> 'a tensor \<Rightarrow> 'g \<Rightarrow> error + ('a tensor \<times> 'g)) \<Rightarrow> 'm list \<Rightarrow> 'a tensor \<Rightarrow> 'g
     \<Rightarrow> error + ('a tensor \<times> 'g)" where
  "Sequential fwd [] x g = Inr (x, g)"
| "Sequential fwd (m # ms) x g = and_then (fwd m x g) (\<lambda>(y, g'). Sequential fwd ms y g')"

record 'a Classifier =
  classifier_0 :: "'a Linear"
  classifier_2 :: Dropout
  classifier_3 :: "'a Linear"

definition Classifier_forward ::
  "('a, 'g) numerics \<Rightarrow> bool \<Rightarrow> 'a Classifier \<Rightarrow> 'a tensor \<Rightarrow> 'g \<Rightarrow> error + ('a tensor \<times> 'g)" where
  "Classifier_forward num training c x g =
     and_then (Linear_forward (classifier_0 c) x) (\<lambda>x1.
     case Dropout_forward num training (classifier_2 c) (gelu num x1) g of (x2, g1) \<Rightarrow>
     and_then (Linear_forward (classifier_3 c) x2) (\<lambda>x3.
     Inr (x3, g1)))"

record 'a SpeechRecognitionModel =
  cnn :: "'a Conv2d"
  rescnn_layers :: "'a ResidualCNN list"
  fully_connected :: "'a Linear"
  birnn_layers :: "'a BidirectionalGRU list"
  classifier :: "'a Classifier"

record 'a SpeechRecognitionModel_weights =
  w_cnn :: "'a conv_w"
  w_rescnn_layers :: "nat \<Rightarrow> 'a ResidualCNN_weights"
  w_fully_connected :: "'a vec_w"
  w_birnn_layers :: "nat \<Rightarrow> 'a BidirectionalGRU_weights"
  w_classifier_0 :: "'a vec_w"
  w_classifier_3 :: "'a vec_w"

definition SpeechRecognitionModel_init ::
  "nat \<Rightarrow> nat \<Rightarrow> nat \<Rightarrow> nat \<Rightarrow> nat \<Rightarrow> nat \<Rightarrow> real \<Rightarrow> 'a SpeechRecognitionModel_weights
     \<Rightarrow> 'a SpeechRecognitionModel" where
  "SpeechRecognitionModel_init n_cnn_layers n_rnn_layers rnn_dim n_class n_feats stride dropout w =
     (let n_feats = n_feats div 2 in
      \<lparr>cnn = Conv2d_init 1 32 3 stride (3 div 2) (w_cnn w),
       rescnn_layers =
         map (\<lambda>i. ResidualCNN_init 32 32 3 1 dropout n_feats (w_rescnn_layers w i))
           [0..<n_cnn_layers],
       fully_connected = Linear_init (n_feats * 32) rnn_dim (w_fully_connected w),
       birnn_layers =
         map (\<lambda>i. BidirectionalGRU_init (if i = 0 then rnn_dim else rnn_dim * 2) rnn_dim
                    dropout (i = 0) (w_birnn_layers w i))
           [0..<n_rnn_layers],
       classifier =
         \<lparr>classifier_0 = Linear_init (rnn_dim * 2) rnn_dim (w_classifier_0 w),
          classifier_2 = Dropout_init dropout,
          classifier_3 = Linear_init rnn_dim n_class (w_classifier_3 w)\<rparr>\<rparr>)"

text \<open>The constructor's defaults: \<^verbatim>\<open>stride=2, dropout=0.1\<close>.\<close>

definition default_stride :: nat where
  "default_stride = 2"

definition default_dropout :: real where
  "default_dropout = 1 / 10"

definition SpeechRecognitionModel_forward ::
  "('a, 'g) numerics \<Rightarrow> bool \<Rightarrow> 'a SpeechRecognitionModel \<Rightarrow> 'a tensor \<Rightarrow> 'g
     \<Rightarrow> error + ('a tensor \<times> 'g)" where
  "SpeechRecognitionModel_forward num training m x g =
     and_then (Conv2d_forward (cnn m) x) (\<lambda>x1.
     and_then (Sequential (ResidualCNN_forward num training) (rescnn_layers m) x1 g) (\<lambda>(x2, g1).
     let sizes = shape x2 in
     and_then (index_at sizes 0) (\<lambda>s0.
     and_then (index_at sizes 1) (\<lambda>s1.
     and_then (index_at sizes 2) (\<lambda>s2.
     and_then (index_at sizes 3) (\<lambda>s3.
     and_then (view [s0, s1 * s2, s3] x2) (\<lambda>x3.
     and_then (transpose_t 1 2 x3) (\<lambda>x4.
     and_then (Linear_forward (fully_connected m) x4) (\<lambda>x5.
     and_then (Sequential (BidirectionalGRU_forward num training) (birnn_layers m) x5 g1)
       (\<lambda>(x6, g2).
     Classifier_forward num training (classifier m) x6 g2))))))))))"

section \<open>What a forward call does to the shape\<close>

text \<open>
  The shape of the tensor each forward function returns, or the error it raises, as a function
  of the shape of its input alone.  The theorems below show that these functions agree with
  the forward functions of the section before.
\<close>

definition shape_of :: "error + ('a tensor \<times> 'g) \<Rightarrow> error + nat list" where
  "shape_of r = (case r of Inl e \<Rightarrow> Inl e | Inr (y, g) \<Rightarrow> Inr (shape y))"

definition CNNLayerNorm_shape :: "'a CNNLayerNorm \<Rightarrow> nat list \<Rightarrow> error + nat list" where
  "CNNLayerNorm_shape m s =
     and_then (transpose_shape 2 3 s) (\<lambda>s1.
     and_then (LayerNorm_shape (layer_norm m) s1) (\<lambda>s2.
     transpose_shape 2 3 s2))"

definition ResidualCNN_shape :: "'a ResidualCNN \<Rightarrow> nat list \<Rightarrow> error + nat list" where
  "ResidualCNN_shape m s =
     and_then (CNNLayerNorm_shape (layer_norm1 m) s) (\<lambda>s1.
     and_then (Conv2d_shape (cnn1 m) s1) (\<lambda>s3.
     and_then (CNNLayerNorm_shape (layer_norm2 m) s3) (\<lambda>s4.
     and_then (Conv2d_shape (cnn2 m) s4) (\<lambda>s6.
     iadd_shape s6 s))))"

definition BidirectionalGRU_shape :: "'a BidirectionalGRU \<Rightarrow> nat list \<Rightarrow> error + nat list" where
  "BidirectionalGRU_shape m s =
     and_then (LayerNorm_shape (birnn_layer_norm m) s) (\<lambda>s1.
     and_then (GRU_shapes (BiGRU m) s1) (\<lambda>(s2, sh). Inr s2))"

fun Sequential_shape ::
  "('m \<Rightarrow> nat list \<Rightarrow> error + nat list) \<Rightarrow> 'm list \<Rightarrow> nat list \<Rightarrow> error + nat list" where
  "Sequential_shape f [] s = Inr s"
| "Sequential_shape f (m # ms) s = and_then (f m s) (Sequential_shape f ms)"

definition Classifier_shape :: "'a Classifier \<Rightarrow> nat list \<Rightarrow> error + nat list" where
  "Classifier_shape c s =
     and_then (Linear_shape (classifier_0 c) s) (Linear_shape (classifier_3 c))"

definition SpeechRecognitionModel_shape ::
  "'a SpeechRecognitionModel \<Rightarrow> nat list \<Rightarrow> error + nat list" where
  "SpeechRecognitionModel_shape m s =
     and_then (Conv2d_shape (cnn m) s) (\<lambda>s1.
     and_then (Sequential_shape ResidualCNN_shape (rescnn_layers m) s1) (\<lambda>s2.
     and_then (index_at s2 0) (\<lambda>n0.
     and_then (index_at s2 1) (\<lambda>n1.
     and_then (index_at s2 2) (\<lambda>n2.
     and_then (index_at s2 3) (\<lambda>n3.
     and_then (view_shape [n0, n1 * n2, n3] s2) (\<lambda>s3.
     and_then (transpose_shape 1 2 s3) (\<lambda>s4.
     and_then (Linear_shape (fully_connected m) s4) (\<lambda>s5.
     and_then (Sequential_shape BidirectionalGRU_shape (birnn_layers m) s5) (\<lambda>s6.
     Classifier_shape (classifier m) s6))))))))))"

section \<open>Sample values\<close>

text \<open>
  Concrete numerics over the integers, concrete parameter functions and a concrete tensor, on
  which the theorems are instantiated.  The sample generator is a counter; a mask keeps
  everything while the counter is below 2 and drops everything from then on.
\<close>

definition sample_numerics :: "(int, nat) numerics" where
  "sample_numerics =
     \<lparr>gelu_elem = (\<lambda>v. v), add_elem = (\<lambda>u v. u + v),
      bernoulli = (\<lambda>g p s. (\<lambda>i. g < 2, Suc g)),
      mask_elem = (\<lambda>p keep v. if keep then v else 0)\<rparr>"

definition sample_weights :: "int SpeechRecognitionModel_weights" where
  "sample_weights =
     \<lparr>w_cnn = (\<lambda>x i. 1),
      w_rescnn_layers = (\<lambda>k. \<lparr>w_cnn1 = (\<lambda>x i. 1), w_cnn2 = (\<lambda>x i. 1),
                               w_layer_norm1 = (\<lambda>v. v), w_layer_norm2 = (\<lambda>v. v)\<rparr>),
      w_fully_connected = (\<lambda>v. v),
      w_birnn_layers = (\<lambda>k. \<lparr>w_BiGRU = (\<lambda>x. (\<lambda>i. 1, \<lambda>i. 1)), w_layer_norm = (\<lambda>v. v)\<rparr>),
      w_classifier_0 = (\<lambda>v. v),
      w_classifier_3 = (\<lambda>v. v)\<rparr>"

definition sample_tensor :: "nat list \<Rightarrow> int tensor" where
  "sample_tensor s = \<lparr>shape = s, elem = (\<lambda>i. int (sum_list i))\<rparr>"

section \<open>The shape functions agree with the forward functions\<close>

lemma and_then_Inl [simp]: "and_then (Inl e) f = Inl e"
  by (simp add: and_then_def)

lemma and_then_Inr [simp]: "and_then (Inr v) f = f v"
  by (simp add: and_then_def)

lemma and_then_eq_Inr: "and_then r f = Inr y \<longleftrightarrow> (\<exists>v. r = Inr v \<and> f v = Inr y)"
  by (cases r) simp_all

lemma shape_of_Inl [simp]: "shape_of (Inl e) = Inl e"
  by (simp add: shape_of_def)

lemma shape_of_Inr [simp]: "shape_of (Inr (y, g)) = Inr (shape y)"
  by (simp add: shape_of_def)

lemma shape_of_eq_Inr: "shape_of r = Inr s \<longleftrightarrow> (\<exists>y g. r = Inr (y, g) \<and> shape y = s)"
  by (cases r) (auto simp: shape_of_def)

lemma shape_of_eq_Inl: "shape_of r = Inl e \<longleftrightarrow> r = Inl e"
  by (cases r) (auto simp: shape_of_def)

lemma transpose_t_shape:
  "map_sum id shape (transpose_t d0 d1 x) = transpose_shape d0 d1 (shape x)"
  by (cases "transpose_shape d0 d1 (shape x)") (simp_all add: transpose_t_def)

lemma LayerNorm_forward_shape:
  "map_sum id shape (LayerNorm_forward l x) = LayerNorm_shape l (shape x)"
  by (cases "LayerNorm_shape l (shape x)") (simp_all add: LayerNorm_forward_def)

lemma Linear_forward_shape:
  "map_sum id shape (Linear_forward l x) = Linear_shape l (shape x)"
  by (cases "Linear_shape l (shape x)") (simp_all add: Linear_forward_def)

lemma Conv2d_forward_shape:
  "map_sum id shape (Conv2d_forward c x) = Conv2d_shape c (shape x)"
  by (cases "Conv2d_shape c (shape x)") (simp_all add: Conv2d_forward_def)

lemma view_forward_shape:
  "map_sum id shape (view new x) = view_shape new (shape x)"
  by (cases "view_shape new (shape x)") (simp_all add: view_def)

lemma iadd_forward_shape:
  "map_sum id shape (iadd num x r) = iadd_shape (shape x) (shape r)"
  by (cases "iadd_shape (shape x) (shape r)") (simp_all add: iadd_def)

lemma GRU_forward_shape:
  "map_sum id (shape \<circ> fst) (GRU_forward r x) = map_sum id fst (GRU_shapes r (shape x))"
  by (cases "GRU_shapes r (shape x)") (auto simp: GRU_forward_def)

lemma gelu_shape [simp]: "shape (gelu num x) = shape x"
  by (simp add: gelu_def)

lemma contiguous_shape [simp]: "shape (contiguous x) = shape x"
  by (simp add: contiguous_def)

lemma Dropout_forward_shape [simp]: "shape (fst (Dropout_forward num training d x g)) = shape x"
  by (simp add: Dropout_forward_def split: prod.splits)

lemma CNNLayerNorm_forward_shape:
  "map_sum id shape (CNNLayerNorm_forward m x) = CNNLayerNorm_shape m (shape x)"
  by (auto simp: CNNLayerNorm_forward_def CNNLayerNorm_shape_def transpose_t_def
      LayerNorm_forward_def and_then_def split: sum.splits)

lemma res_InlD:
  "map_sum id shape r = rs \<Longrightarrow> r = Inl e \<Longrightarrow> rs = Inl e"
  by auto

lemma res_InrD:
  "map_sum id shape r = rs \<Longrightarrow> r = Inr y \<Longrightarrow> rs = Inr (shape y)"
  by auto

lemmas prim_shapeD =
  res_InlD[OF transpose_t_shape] res_InrD[OF transpose_t_shape]
  res_InlD[OF LayerNorm_forward_shape] res_InrD[OF LayerNorm_forward_shape]
  res_InlD[OF Linear_forward_shape] res_InrD[OF Linear_forward_shape]
  res_InlD[OF Conv2d_forward_shape] res_InrD[OF Conv2d_forward_shape]
  res_InlD[OF view_forward_shape] res_InrD[OF view_forward_shape]
  res_InlD[OF iadd_forward_shape] res_InrD[OF iadd_forward_shape]
  res_InlD[OF CNNLayerNorm_forward_shape] res_InrD[OF CNNLayerNorm_forward_shape]

lemma Dropout_forward_shape2:
  "Dropout_forward num training d x g = (y, g') \<Longrightarrow> shape y = shape x"
  using Dropout_forward_shape[of num training d x g] by simp

lemma ResidualCNN_forward_shape:
  "shape_of (ResidualCNN_forward num training m x g) = ResidualCNN_shape m (shape x)"
  unfolding ResidualCNN_forward_def ResidualCNN_shape_def Let_def
  by (auto simp: and_then_def split: sum.splits prod.splits
      dest!: prim_shapeD Dropout_forward_shape2)

lemma GRU_forward_InlD: "GRU_forward r x = Inl e \<Longrightarrow> GRU_shapes r (shape x) = Inl e"
  by (cases "GRU_shapes r (shape x)") (auto simp: GRU_forward_def)

lemma GRU_forward_InrD:
  "GRU_forward r x = Inr (y, h) \<Longrightarrow> GRU_shapes r (shape x) = Inr (shape y, shape h)"
  by (cases "GRU_shapes r (shape x)") (auto simp: GRU_forward_def)

lemma BidirectionalGRU_forward_shape:
  "shape_of (BidirectionalGRU_forward num training m x g) = BidirectionalGRU_shape m (shape x)"
  unfolding BidirectionalGRU_forward_def BidirectionalGRU_shape_def
  by (auto simp: and_then_def shape_of_def split: sum.splits prod.splits
      dest!: prim_shapeD Dropout_forward_shape2 GRU_forward_InlD GRU_forward_InrD)

lemma Sequential_forward_shape:
  assumes "\<And>m x g. shape_of (fwd m x g) = f m (shape x)"
  shows "shape_of (Sequential fwd ms x g) = Sequential_shape f ms (shape x)"
proof (induction ms arbitrary: x g)
  case Nil
  show ?case by simp
next
  case (Cons m ms)
  show ?case
  proof (cases "fwd m x g")
    case (Inl e)
    with assms[of m x g, symmetric] show ?thesis by simp
  next
    case (Inr yg)
    obtain y g' where yg: "yg = (y, g')" by (cases yg)
    with Inr assms[of m x g, symmetric] have "f m (shape x) = Inr (shape y)" by simp
    with Inr yg Cons.IH[of y g'] show ?thesis by simp
  qed
qed

lemma Classifier_forward_shape:
  "shape_of (Classifier_forward num training c x g) = Classifier_shape c (shape x)"
  unfolding Classifier_forward_def Classifier_shape_def
  by (auto simp: and_then_def shape_of_def split: sum.splits prod.splits
      dest!: prim_shapeD Dropout_forward_shape2)

lemma shape_of_InlD: "shape_of r = rs \<Longrightarrow> r = Inl e \<Longrightarrow> rs = Inl e"
  by auto

lemma shape_of_InrD: "shape_of r = rs \<Longrightarrow> r = Inr (y, g) \<Longrightarrow> rs = Inr (shape y)"
  by auto

lemmas seq_shapeD =
  shape_of_InlD[OF Sequential_forward_shape[where fwd="ResidualCNN_forward num training" and f=ResidualCNN_shape, OF ResidualCNN_forward_shape]]
  shape_of_InrD[OF Sequential_forward_shape[where fwd="ResidualCNN_forward num training" and f=ResidualCNN_shape, OF ResidualCNN_forward_shape]]
  shape_of_InlD[OF Sequential_forward_shape[where fwd="BidirectionalGRU_forward num training" and f=BidirectionalGRU_shape, OF BidirectionalGRU_forward_shape]]
  shape_of_InrD[OF Sequential_forward_shape[where fwd="BidirectionalGRU_forward num training" and f=BidirectionalGRU_shape, OF BidirectionalGRU_forward_shape]]
  for num training

lemma SpeechRecognitionModel_forward_shape:
  "shape_of (SpeechRecognitionModel_forward num training m x g) =
     SpeechRecognitionModel_shape m (shape x)"
  unfolding SpeechRecognitionModel_forward_def SpeechRecognitionModel_shape_def Let_def
  by (auto simp: and_then_def Classifier_forward_shape split: sum.splits prod.splits
      dest!: prim_shapeD seq_shapeD)

section \<open>Shape rules of the operations\<close>

lemma swap_2_3 [simp]: "swap 2 3 [b, c, f, t] = [b, c, t, f]"
  by (simp add: swap_def eval_nat_numeral)

lemma swap_1_2 [simp]: "swap 1 2 [b, c, f] = [b, f, c]"
  by (simp add: swap_def eval_nat_numeral)

lemma length_swap [simp]: "length (swap i j xs) = length xs"
  by (simp add: swap_def)

lemma swap_swap: "i < length xs \<Longrightarrow> j < length xs \<Longrightarrow> swap i j (swap i j xs) = xs"
  by (auto simp: swap_def list_eq_iff_nth_eq nth_list_update)

lemma hd_swap: "0 < i \<Longrightarrow> 0 < j \<Longrightarrow> hd (swap i j xs) = hd xs"
  by (cases xs) (auto simp: swap_def  split: nat.splits)

lemma transpose_shape_Inr:
  "transpose_shape i j s = Inr s' \<longleftrightarrow> i < length s \<and> j < length s \<and> s' = swap i j s"
  by (auto simp: transpose_shape_def Let_def)

lemma LayerNorm_shape_Inr:
  "LayerNorm_shape l s = Inr s' \<longleftrightarrow> s \<noteq> [] \<and> last s = ln_normalized_shape l \<and> s' = s"
  by (auto simp: LayerNorm_shape_def)

lemma Linear_shape_Inr:
  "Linear_shape l s = Inr s' \<longleftrightarrow>
     s \<noteq> [] \<and> last s = lin_in_features l \<and> s' = butlast s @ [lin_out_features l]"
  by (auto simp: Linear_shape_def)

lemma CNNLayerNorm_shape_Inr:
  "CNNLayerNorm_shape m s = Inr s' \<Longrightarrow> s' = s \<and> 3 < length s"
  by (auto simp: CNNLayerNorm_shape_def and_then_eq_Inr transpose_shape_Inr LayerNorm_shape_Inr
      swap_swap)

lemma CNNLayerNorm_shape_4d:
  "CNNLayerNorm_shape m [b, c, f, t] =
     (if f = ln_normalized_shape (layer_norm m) then Inr [b, c, f, t]
      else Inl (LayerNormShape (ln_normalized_shape (layer_norm m)) [b, c, t, f]))"
  by (simp add: CNNLayerNorm_shape_def transpose_shape_def LayerNorm_shape_def)

lemma Conv2d_shape_4d:
  "Conv2d_shape c [b, ch, h, w] =
     (if conv_stride c = 0 then Inl ConvStride
      else if ch \<noteq> conv_in_channels c then Inl (ConvChannels (conv_in_channels c) ch)
      else if h + 2 * conv_padding c < conv_kernel_size c
              \<or> w + 2 * conv_padding c < conv_kernel_size c
           then Inl (ConvKernel h w (conv_kernel_size c))
      else if h = 0 \<or> w = 0 then Inl (ConvEmptyInput h w)
      else Inr [b, conv_out_channels c, conv_out c h, conv_out c w])"
  by (simp add: conv_spatial_def)

lemma Conv2d_shape_Inr:
  assumes "Conv2d_shape c s = Inr s'" and "3 < length s"
  shows "\<exists>b h w. s = [b, conv_in_channels c, h, w] \<and> conv_stride c \<noteq> 0
           \<and> conv_kernel_size c \<le> h + 2 * conv_padding c
           \<and> conv_kernel_size c \<le> w + 2 * conv_padding c
           \<and> s' = [b, conv_out_channels c, conv_out c h, conv_out c w]"
  using assms
  by (cases "(c, s)" rule: Conv2d_shape.cases) (auto simp: conv_spatial_def split: if_splits)

section \<open>What the constructor builds\<close>

lemma rescnn_layers_init:
  "rescnn_layers (SpeechRecognitionModel_init n_cnn_layers n_rnn_layers rnn_dim n_class n_feats
      stride dropout w) =
     map (\<lambda>i. ResidualCNN_init 32 32 3 1 dropout (n_feats div 2) (w_rescnn_layers w i))
       [0..<n_cnn_layers]"
  by (simp add: SpeechRecognitionModel_init_def Let_def)

lemma birnn_layers_init:
  "birnn_layers (SpeechRecognitionModel_init n_cnn_layers n_rnn_layers rnn_dim n_class n_feats
      stride dropout w) =
     map (\<lambda>i. BidirectionalGRU_init (if i = 0 then rnn_dim else rnn_dim * 2) rnn_dim dropout
                (i = 0) (w_birnn_layers w i))
       [0..<n_rnn_layers]"
  by (simp add: SpeechRecognitionModel_init_def Let_def)

lemma cnn_init:
  "cnn (SpeechRecognitionModel_init n_cnn_layers n_rnn_layers rnn_dim n_class n_feats
      stride dropout w) = Conv2d_init 1 32 3 stride 1 (w_cnn w)"
  by (simp add: SpeechRecognitionModel_init_def Let_def)

lemma fully_connected_init:
  "fully_connected (SpeechRecognitionModel_init n_cnn_layers n_rnn_layers rnn_dim n_class n_feats
      stride dropout w) = Linear_init (n_feats div 2 * 32) rnn_dim (w_fully_connected w)"
  by (simp add: SpeechRecognitionModel_init_def Let_def)

lemma classifier_init:
  "classifier (SpeechRecognitionModel_init n_cnn_layers n_rnn_layers rnn_dim n_class n_feats
      stride dropout w) =
     \<lparr>classifier_0 = Linear_init (rnn_dim * 2) rnn_dim (w_classifier_0 w),
      classifier_2 = Dropout_init dropout,
      classifier_3 = Linear_init rnn_dim n_class (w_classifier_3 w)\<rparr>"
  by (simp add: SpeechRecognitionModel_init_def Let_def)

text \<open>
  Claim C2, as amended.  The constructor halves \<open>n_feats\<close> once, by integer division, and the
  halved value is the configured width of both normalization layers of every residual block.
  The normalization layer of a bidirectional recurrent block is not configured with it: its
  width is \<open>rnn_dim\<close> in the first block and \<open>rnn_dim * 2\<close> in every later one.
\<close>

theorem C2_normalization_widths:
  assumes "M = SpeechRecognitionModel_init n_cnn_layers n_rnn_layers rnn_dim n_class n_feats
                 stride dropout w"
  shows "(\<forall>i<n_cnn_layers.
            ln_normalized_shape (layer_norm (layer_norm1 (rescnn_layers M ! i))) = n_feats div 2
          \<and> ln_normalized_shape (layer_norm (layer_norm2 (rescnn_layers M ! i))) = n_feats div 2)
       \<and> (\<forall>i<n_rnn_layers.
            ln_normalized_shape (birnn_layer_norm (birnn_layers M ! i)) =
              (if i = 0 then rnn_dim else rnn_dim * 2))
       \<and> length (rescnn_layers M) = n_cnn_layers
       \<and> length (birnn_layers M) = n_rnn_layers"
  unfolding assms rescnn_layers_init birnn_layers_init
  by (simp add: ResidualCNN_init_def CNNLayerNorm_init_def LayerNorm_init_def
      BidirectionalGRU_init_def)

theorem C2_normalization_widths_witness:
  "ln_normalized_shape (layer_norm (layer_norm1 (rescnn_layers
      (SpeechRecognitionModel_init 3 2 256 29 128 default_stride default_dropout sample_weights)
      ! 0))) = 64
   \<and> ln_normalized_shape (birnn_layer_norm (birnn_layers
      (SpeechRecognitionModel_init 3 2 256 29 128 default_stride default_dropout sample_weights)
      ! 1)) = 512"
  using C2_normalization_widths[OF refl, of 3 2 256 29 128 default_stride default_dropout
      sample_weights]
  by auto

text \<open>
  The claim as stated fails on the scenario's model: the normalization layer of the first
  recurrent block has width 256, not 128 div 2.
\<close>

theorem C2_counterexample:
  "ln_normalized_shape (birnn_layer_norm (birnn_layers
      (SpeechRecognitionModel_init 3 2 256 29 128 default_stride default_dropout sample_weights)
      ! 0)) \<noteq> 128 div 2"
  by (simp add: birnn_layers_init BidirectionalGRU_init_def LayerNorm_init_def upt_conv_Cons)

text \<open>The first recurrent block is built batch-first, every later one time-first.\<close>

lemma birnn_layers_batch_first:
  assumes "i < n_rnn_layers"
  shows "gru_batch_first (BiGRU (birnn_layers
           (SpeechRecognitionModel_init n_cnn_layers n_rnn_layers rnn_dim n_class n_feats stride
              dropout w) ! i)) = (i = 0)"
  using assms unfolding birnn_layers_init
  by (simp add: BidirectionalGRU_init_def GRU_init_def)

section \<open>Shape rules of the blocks\<close>

lemma iadd_shape_Inr:
  "iadd_shape s r = Inr s' \<longleftrightarrow> broadcastable (rev r) (rev s) \<and> s' = s"
  by (auto simp: iadd_shape_def)

lemma conv_out_same:
  assumes "conv_stride c = 1" and "2 * conv_padding c + 1 = conv_kernel_size c" and "0 < n"
  shows "conv_out c n = n"
  using assms by (auto simp: conv_out_def)

lemma conv_out_same_iff:
  assumes "conv_stride c = 1" and "conv_kernel_size c \<le> n + 2 * conv_padding c"
  shows "conv_out c n = n \<longleftrightarrow> 2 * conv_padding c + 1 = conv_kernel_size c"
  using assms by (auto simp: conv_out_def)

lemma ResidualCNN_shape_Inr:
  assumes "ResidualCNN_shape m s = Inr s'"
  shows "\<exists>b f t. s = [b, conv_in_channels (cnn1 m), f, t]
           \<and> f = ln_normalized_shape (layer_norm (layer_norm1 m))
           \<and> conv_out (cnn1 m) f = ln_normalized_shape (layer_norm (layer_norm2 m))
           \<and> conv_kernel_size (cnn1 m) \<le> f + 2 * conv_padding (cnn1 m)
           \<and> conv_kernel_size (cnn1 m) \<le> t + 2 * conv_padding (cnn1 m)
           \<and> conv_kernel_size (cnn2 m) \<le> conv_out (cnn1 m) t + 2 * conv_padding (cnn2 m)
           \<and> s' = [b, conv_out_channels (cnn2 m), conv_out (cnn2 m) (conv_out (cnn1 m) f),
                   conv_out (cnn2 m) (conv_out (cnn1 m) t)]
           \<and> broadcastable (rev s) (rev s')"
proof -
  from assms obtain s3 s6 where
    ln1: "CNNLayerNorm_shape (layer_norm1 m) s = Inr s"
    and c1: "Conv2d_shape (cnn1 m) s = Inr s3"
    and ln2: "CNNLayerNorm_shape (layer_norm2 m) s3 = Inr s3"
    and c2: "Conv2d_shape (cnn2 m) s3 = Inr s6"
    and add: "iadd_shape s6 s = Inr s'"
    unfolding ResidualCNN_shape_def and_then_eq_Inr
    using CNNLayerNorm_shape_Inr by blast
  from ln1 have len: "3 < length s" using CNNLayerNorm_shape_Inr by blast
  from Conv2d_shape_Inr[OF c1 len] obtain b h w where
    s: "s = [b, conv_in_channels (cnn1 m), h, w]"
    and k1: "conv_kernel_size (cnn1 m) \<le> h + 2 * conv_padding (cnn1 m)"
      "conv_kernel_size (cnn1 m) \<le> w + 2 * conv_padding (cnn1 m)"
    and s3: "s3 = [b, conv_out_channels (cnn1 m), conv_out (cnn1 m) h, conv_out (cnn1 m) w]"
    by blast
  from ln1 s have h: "h = ln_normalized_shape (layer_norm (layer_norm1 m))"
    by (simp add: CNNLayerNorm_shape_4d split: if_splits)
  from ln2 s3 have h': "conv_out (cnn1 m) h = ln_normalized_shape (layer_norm (layer_norm2 m))"
    by (simp add: CNNLayerNorm_shape_4d split: if_splits)
  from c2 s3 have s6: "s6 = [b, conv_out_channels (cnn2 m), conv_out (cnn2 m) (conv_out (cnn1 m) h),
                   conv_out (cnn2 m) (conv_out (cnn1 m) w)]"
    and k2: "conv_kernel_size (cnn2 m) \<le> conv_out (cnn1 m) w + 2 * conv_padding (cnn2 m)"
    by (auto simp: conv_spatial_def split: if_splits)
  from add have "s' = s6" "broadcastable (rev s) (rev s')"
    by (auto simp: iadd_shape_Inr)
  with s h h' s6 k1 k2 show ?thesis by blast
qed

lemma ResidualCNN_shape_hd:
  assumes "ResidualCNN_shape m s = Inr s'"
  shows "length s = 4 \<and> length s' = 4 \<and> hd s' = hd s"
  using ResidualCNN_shape_Inr[OF assms] by auto

lemmas ResidualCNN_init_simps =
  ResidualCNN_init_def Conv2d_init_def CNNLayerNorm_init_def LayerNorm_init_def Dropout_init_def

lemma ResidualCNN_init_shape_Inr:
  assumes "ResidualCNN_shape
             (ResidualCNN_init in_channels out_channels kernel' 1 dropout n_feats w) s = Inr s'"
  shows "\<exists>b t. s = [b, in_channels, n_feats, t] \<and> s' = [b, out_channels, n_feats, t]
           \<and> odd kernel' \<and> 0 < n_feats \<and> 0 < t \<and> (in_channels = out_channels \<or> in_channels = 1)"
proof -
  let ?m = "ResidualCNN_init in_channels out_channels kernel' 1 dropout n_feats w"
  from ResidualCNN_shape_Inr[OF assms] obtain b f t where
    s: "s = [b, in_channels, f, t]" and f: "f = n_feats"
    and f': "conv_out (cnn1 ?m) f = n_feats"
    and k: "kernel' \<le> f + 2 * (kernel' div 2)" "kernel' \<le> t + 2 * (kernel' div 2)"
    and s': "s' = [b, out_channels, conv_out (cnn2 ?m) (conv_out (cnn1 ?m) f),
                   conv_out (cnn2 ?m) (conv_out (cnn1 ?m) t)]"
    and bc: "broadcastable (rev s) (rev s')"
    by (auto simp: ResidualCNN_init_simps)
  from f f' k(1) have odd: "2 * (kernel' div 2) + 1 = kernel'"
    using conv_out_same_iff[of "cnn1 ?m" f] by (simp add: ResidualCNN_init_simps)
  then have same: "0 < n \<Longrightarrow> conv_out (cnn1 ?m) n = n" "0 < n \<Longrightarrow> conv_out (cnn2 ?m) n = n" for n
    by (simp_all add: conv_out_same ResidualCNN_init_simps)
  from odd have "odd kernel'" by presburger
  moreover from odd k f have pos: "0 < n_feats" "0 < t" by presburger+
  moreover from s' same f pos have "s' = [b, out_channels, n_feats, t]" by simp
  moreover from bc s this have "in_channels = out_channels \<or> in_channels = 1" by simp
  ultimately show ?thesis using s f by blast
qed

lemma ResidualCNN_init_shape_ok:
  assumes "odd kernel'" and "0 < n_feats" and "0 < t"
    and "in_channels = out_channels \<or> in_channels = 1"
  shows "ResidualCNN_shape
           (ResidualCNN_init in_channels out_channels kernel' 1 dropout n_feats w)
           [b, in_channels, n_feats, t] = Inr [b, out_channels, n_feats, t]"
proof -
  let ?m = "ResidualCNN_init in_channels out_channels kernel' 1 dropout n_feats w"
  from assms(1) have odd: "2 * (kernel' div 2) + 1 = kernel'" by presburger
  then have same: "0 < n \<Longrightarrow> conv_out (cnn1 ?m) n = n" "0 < n \<Longrightarrow> conv_out (cnn2 ?m) n = n" for n
    by (simp_all add: conv_out_same ResidualCNN_init_simps)
  from odd assms(2,3) have k: "kernel' \<le> n_feats + 2 * (kernel' div 2)"
    "kernel' \<le> t + 2 * (kernel' div 2)" by presburger+
  have c1: "Conv2d_shape (cnn1 ?m) [b, in_channels, n_feats, t] = Inr [b, out_channels, n_feats, t]"
    using k same(1) assms(2,3) by (simp add: conv_spatial_def ResidualCNN_init_simps)
  have c2: "Conv2d_shape (cnn2 ?m) [b, out_channels, n_feats, t] = Inr [b, out_channels, n_feats, t]"
    using k same(2) assms(2,3) by (simp add: conv_spatial_def ResidualCNN_init_simps)
  have ln: "CNNLayerNorm_shape (layer_norm1 ?m) [b, c, n_feats, t] = Inr [b, c, n_feats, t]"
    "CNNLayerNorm_shape (layer_norm2 ?m) [b, c, n_feats, t] = Inr [b, c, n_feats, t]" for c
    by (simp_all add: CNNLayerNorm_shape_4d ResidualCNN_init_simps)
  show ?thesis
    unfolding ResidualCNN_shape_def ln and_then_Inr c1 c2 using assms(4)
    by (auto simp: iadd_shape_def)
qed

lemma ResidualCNN_init_shape_mismatch:
  assumes "f \<noteq> n_feats"
  shows "ResidualCNN_shape
           (ResidualCNN_init in_channels out_channels kernel' stride dropout n_feats w)
           [b, c, f, t] = Inl (LayerNormShape n_feats [b, c, t, f])"
  using assms
  by (simp add: ResidualCNN_shape_def CNNLayerNorm_shape_4d ResidualCNN_init_simps)

lemma broadcast_index_same:
  assumes "i0 < b" and "i1 < c" and "i2 < f" and "i3 < t"
  shows "broadcast_index [b, c, f, t] [i0, i1, i2, i3] = [i0, i1, i2, i3]"
  using assms by (auto simp: broadcast_index_def)

lemma ResidualCNN_forward_steps:
  assumes "ResidualCNN_forward num training m x g = Inr (y, g')"
  shows "\<exists>x1 x2 g1 x3 x4 x5 z.
           CNNLayerNorm_forward (layer_norm1 m) x = Inr x1
         \<and> Dropout_forward num training (dropout1 m) (gelu num x1) g = (x2, g1)
         \<and> Conv2d_forward (cnn1 m) x2 = Inr x3
         \<and> CNNLayerNorm_forward (layer_norm2 m) x3 = Inr x4
         \<and> Dropout_forward num training (dropout2 m) (gelu num x4) g1 = (x5, g')
         \<and> Conv2d_forward (cnn2 m) x5 = Inr z
         \<and> iadd num z x = Inr y"
proof -
  from assms obtain x1 x3 x4 z where
    1: "CNNLayerNorm_forward (layer_norm1 m) x = Inr x1"
    and 3: "Conv2d_forward (cnn1 m)
              (fst (Dropout_forward num training (dropout1 m) (gelu num x1) g)) = Inr x3"
    and 4: "CNNLayerNorm_forward (layer_norm2 m) x3 = Inr x4"
    and 6: "Conv2d_forward (cnn2 m)
              (fst (Dropout_forward num training (dropout2 m) (gelu num x4)
                 (snd (Dropout_forward num training (dropout1 m) (gelu num x1) g)))) = Inr z"
    and 7: "iadd num z x = Inr y"
    and 8: "g' = snd (Dropout_forward num training (dropout2 m) (gelu num x4)
                 (snd (Dropout_forward num training (dropout1 m) (gelu num x1) g)))"
    unfolding ResidualCNN_forward_def Let_def case_prod_beta and_then_eq_Inr by auto
  show ?thesis
    using 1 3 4 6 7 8 by (metis prod.collapse)
qed

lemma iadd_elem:
  assumes "iadd num z x = Inr y"
  shows "shape y = shape z
       \<and> elem y i = add_elem num (elem z i) (elem x (broadcast_index (shape x) i))"
  using assms by (auto simp: iadd_def and_then_eq_Inr iadd_shape_Inr)

section \<open>The residual convolutional block\<close>

text \<open>
  Claim C4, as amended.  Take a residual block built with \<open>in_channels = out_channels\<close>,
  stride 1 and the kernel size halved as padding.  With an odd kernel size, on every input of
  shape (batch, in_channels, n_feats, time) whose feature and time axes are not empty, it
  returns a tensor of exactly the input's shape: the normalization wrapper, GELU, dropout and
  a convolution succeed twice in sequence, and each element of the result is the sum of the
  element of the second convolution's output and the element of the input at the same index.
  The block returns on no other input, and with an even kernel size it returns on no input.
\<close>

theorem C4_ResidualCNN_shape:
  assumes "m = ResidualCNN_init in_channels out_channels kernel' 1 dropout n_feats w"
    and "in_channels = out_channels"
  shows "(odd kernel' \<longrightarrow> 0 < n_feats \<longrightarrow> 0 < t \<longrightarrow> shape x = [b, in_channels, n_feats, t] \<longrightarrow>
            (\<exists>x1 x2 g1 x3 x4 x5 g2 z y.
                CNNLayerNorm_forward (layer_norm1 m) x = Inr x1
              \<and> Dropout_forward num training (dropout1 m) (gelu num x1) g = (x2, g1)
              \<and> Conv2d_forward (cnn1 m) x2 = Inr x3
              \<and> CNNLayerNorm_forward (layer_norm2 m) x3 = Inr x4
              \<and> Dropout_forward num training (dropout2 m) (gelu num x4) g1 = (x5, g2)
              \<and> Conv2d_forward (cnn2 m) x5 = Inr z
              \<and> shape z = shape x
              \<and> ResidualCNN_forward num training m x g = Inr (y, g2)
              \<and> shape y = shape x
              \<and> (\<forall>i0 i1 i2 i3. i0 < b \<and> i1 < in_channels \<and> i2 < n_feats \<and> i3 < t \<longrightarrow>
                    elem y [i0, i1, i2, i3] =
                      add_elem num (elem z [i0, i1, i2, i3]) (elem x [i0, i1, i2, i3]))))
       \<and> (ResidualCNN_forward num training m x g = Inr (y', g') \<longrightarrow>
            odd kernel' \<and> 0 < n_feats
            \<and> (\<exists>b' t'. 0 < t' \<and> shape x = [b', in_channels, n_feats, t'])
            \<and> shape y' = shape x)
       \<and> (even kernel' \<longrightarrow> (\<exists>e. ResidualCNN_forward num training m x g = Inl e))"
proof -
  have sh: "shape_of (ResidualCNN_forward num training m x g) = ResidualCNN_shape m (shape x)"
    by (rule ResidualCNN_forward_shape)
  have ret: "odd kernel' \<and> 0 < n_feats
            \<and> (\<exists>b' t'. 0 < t' \<and> shape x = [b', in_channels, n_feats, t'])
            \<and> shape y' = shape x"
    if "ResidualCNN_forward num training m x g = Inr (y', g')" for y' g'
  proof -
    from that sh have "ResidualCNN_shape m (shape x) = Inr (shape y')" by simp
    from ResidualCNN_init_shape_Inr[OF this[unfolded assms(1)]] assms(2) show ?thesis by auto
  qed
  have fails: "\<exists>e. ResidualCNN_forward num training m x g = Inl e" if "even kernel'"
  proof (cases "ResidualCNN_forward num training m x g")
    case (Inl e)
    then show ?thesis by blast
  next
    case (Inr yg)
    then have "ResidualCNN_forward num training m x g = Inr (fst yg, snd yg)" by simp
    from ret[OF this] that show ?thesis by simp
  qed
  have runs: "\<exists>x1 x2 g1 x3 x4 x5 g2 z y.
                CNNLayerNorm_forward (layer_norm1 m) x = Inr x1
              \<and> Dropout_forward num training (dropout1 m) (gelu num x1) g = (x2, g1)
              \<and> Conv2d_forward (cnn1 m) x2 = Inr x3
              \<and> CNNLayerNorm_forward (layer_norm2 m) x3 = Inr x4
              \<and> Dropout_forward num training (dropout2 m) (gelu num x4) g1 = (x5, g2)
              \<and> Conv2d_forward (cnn2 m) x5 = Inr z
              \<and> shape z = shape x
              \<and> ResidualCNN_forward num training m x g = Inr (y, g2)
              \<and> shape y = shape x
              \<and> (\<forall>i0 i1 i2 i3. i0 < b \<and> i1 < in_channels \<and> i2 < n_feats \<and> i3 < t \<longrightarrow>
                    elem y [i0, i1, i2, i3] =
                      add_elem num (elem z [i0, i1, i2, i3]) (elem x [i0, i1, i2, i3]))"
    if k: "odd kernel'" and pos: "0 < n_feats" "0 < t"
      and x: "shape x = [b, in_channels, n_feats, t]"
  proof -
    have "ResidualCNN_shape m (shape x) = Inr (shape x)"
      unfolding assms(1) x
      using ResidualCNN_init_shape_ok[where kernel'=kernel' and n_feats=n_feats and t=t
          and in_channels=in_channels and out_channels=out_channels and b=b and dropout=dropout
          and w=w] k pos assms(2)
      by simp
    with sh obtain y g2 where
      run: "ResidualCNN_forward num training m x g = Inr (y, g2)" and y: "shape y = shape x"
      by (auto simp: shape_of_eq_Inr)
    from ResidualCNN_forward_steps[OF run] obtain x1 x2 g1 x3 x4 x5 z where
      steps: "CNNLayerNorm_forward (layer_norm1 m) x = Inr x1"
        "Dropout_forward num training (dropout1 m) (gelu num x1) g = (x2, g1)"
        "Conv2d_forward (cnn1 m) x2 = Inr x3"
        "CNNLayerNorm_forward (layer_norm2 m) x3 = Inr x4"
        "Dropout_forward num training (dropout2 m) (gelu num x4) g1 = (x5, g2)"
        "Conv2d_forward (cnn2 m) x5 = Inr z"
      and add: "iadd num z x = Inr y"
      by blast
    from iadd_elem[OF add] y have z: "shape z = shape x"
      and el: "elem y i = add_elem num (elem z i) (elem x (broadcast_index (shape x) i))" for i
      by simp_all
    have "elem y [i0, i1, i2, i3] =
            add_elem num (elem z [i0, i1, i2, i3]) (elem x [i0, i1, i2, i3])"
      if "i0 < b \<and> i1 < in_channels \<and> i2 < n_feats \<and> i3 < t" for i0 i1 i2 i3
      using that el[of "[i0, i1, i2, i3]"] unfolding x
      by (simp add: broadcast_index_same)
    with steps z run y show ?thesis by blast
  qed
  from runs ret fails show ?thesis by blast
qed

theorem C4_ResidualCNN_shape_witness:
  "ResidualCNN_init 32 32 3 1 default_dropout 64 (w_rescnn_layers sample_weights 0) =
     ResidualCNN_init 32 32 3 1 default_dropout 64 (w_rescnn_layers sample_weights 0)
   \<and> (32::nat) = 32 \<and> odd (3::nat) \<and> (0::nat) < 64 \<and> (0::nat) < 150
   \<and> shape (sample_tensor [2, 32, 64, 150]) = [2, 32, 64, 150]
   \<and> (\<exists>y h. ResidualCNN_forward sample_numerics True
            (ResidualCNN_init 32 32 3 1 default_dropout 64 (w_rescnn_layers sample_weights 0))
            (sample_tensor [2, 32, 64, 150]) 0 = Inr (y, h)
          \<and> shape y = shape (sample_tensor [2, 32, 64, 150]))"
proof -
  have s: "shape (sample_tensor [2, 32, 64, 150]) = [2, 32, 64, 150]"
    by (simp add: sample_tensor_def)
  have p: "odd (3::nat)" "(0::nat) < 64" "(0::nat) < 150" by simp_all
  from C4_ResidualCNN_shape[OF refl refl, where kernel'=3 and n_feats=64 and num=sample_numerics
      and training=True and dropout=default_dropout and w="w_rescnn_layers sample_weights 0"
      and x="sample_tensor [2, 32, 64, 150]" and g=0 and t=150 and b=2 and in_channels=32]
    s p
  have "\<exists>y h. ResidualCNN_forward sample_numerics True
            (ResidualCNN_init 32 32 3 1 default_dropout 64 (w_rescnn_layers sample_weights 0))
            (sample_tensor [2, 32, 64, 150]) 0 = Inr (y, h)
          \<and> shape y = shape (sample_tensor [2, 32, 64, 150])"
    by blast
  with s p show ?thesis by simp
qed

text \<open>
  The claim as stated fails for an even kernel size: with kernel size 2 and padding 1 the first
  convolution makes both spatial axes longer by one, and the second normalization layer
  refuses the result.
\<close>

theorem C4_counterexample:
  "ResidualCNN_forward sample_numerics False
     (ResidualCNN_init 32 32 2 1 default_dropout 4 (w_rescnn_layers sample_weights 0))
     (sample_tensor [1, 32, 4, 5]) 0 = Inl (LayerNormShape 4 [1, 32, 6, 5])"
proof -
  have "ResidualCNN_shape
          (ResidualCNN_init 32 32 2 1 default_dropout 4 (w_rescnn_layers sample_weights 0))
          [1, 32, 4, 5] = Inl (LayerNormShape 4 [1, 32, 6, 5])"
    by (simp add: ResidualCNN_shape_def CNNLayerNorm_shape_4d ResidualCNN_init_simps
        conv_spatial_def conv_out_def)
  then show ?thesis
    using ResidualCNN_forward_shape[of sample_numerics False
        "ResidualCNN_init 32 32 2 1 default_dropout 4 (w_rescnn_layers sample_weights 0)"
        "sample_tensor [1, 32, 4, 5]" 0]
    by (simp add: shape_of_eq_Inl sample_tensor_def)
qed

section \<open>The bidirectional recurrent block\<close>

lemmas BidirectionalGRU_init_simps =
  BidirectionalGRU_init_def GRU_init_def LayerNorm_init_def Dropout_init_def

lemma GRU_shapes_Inr:
  assumes "GRU_shapes r s = Inr (s', h)"
  shows "s \<noteq> [] \<and> last s = gru_input_size r
       \<and> s' = butlast s @ [gru_directions r * gru_hidden_size r]
       \<and> (length s = 3 \<or> length s = 2)"
  using assms
  by (cases "(r, s)" rule: GRU_shapes.cases) (auto split: if_splits)

lemma BidirectionalGRU_shape_Inr:
  assumes "BidirectionalGRU_shape m s = Inr s'"
  shows "s \<noteq> [] \<and> last s = ln_normalized_shape (birnn_layer_norm m)
       \<and> last s = gru_input_size (BiGRU m)
       \<and> s' = butlast s @ [gru_directions (BiGRU m) * gru_hidden_size (BiGRU m)]
       \<and> (length s = 3 \<or> length s = 2)"
proof -
  from assms obtain h where "LayerNorm_shape (birnn_layer_norm m) s = Inr s"
    and "GRU_shapes (BiGRU m) s = Inr (s', h)"
    unfolding BidirectionalGRU_shape_def and_then_eq_Inr LayerNorm_shape_Inr by auto
  then show ?thesis
    using GRU_shapes_Inr[of "BiGRU m" s s' h] by (simp add: LayerNorm_shape_Inr)
qed

lemma BidirectionalGRU_shape_hd:
  assumes "BidirectionalGRU_shape m s = Inr s'"
  shows "length s' = length s \<and> hd s' = hd s"
proof -
  from BidirectionalGRU_shape_Inr[OF assms] obtain v where
    "s' = butlast s @ [v]" "length s = 3 \<or> length s = 2" by blast
  then show ?thesis by (cases s) (auto simp: hd_append)
qed

lemma BidirectionalGRU_init_shape_3d:
  "BidirectionalGRU_shape (BidirectionalGRU_init rnn_dim hidden_size dropout batch_first w)
     [d0, d1, f] =
     (if f \<noteq> rnn_dim then Inl (LayerNormShape rnn_dim [d0, d1, f])
      else if (if batch_first then d1 else d0) = 0 then Inl GRUEmptySequence
      else Inr [d0, d1, 2 * hidden_size])"
  by (simp add: BidirectionalGRU_shape_def LayerNorm_shape_def BidirectionalGRU_init_simps
      gru_directions_def)

text \<open>
  Claim C5.  On an input of shape \<open>(d0, d1, rnn_dim)\<close> whose sequence axis (\<open>d1\<close> in a
  batch-first block, \<open>d0\<close> in a time-first one) is not empty, the block returns a tensor of
  shape \<open>(d0, d1, 2 * hidden_size)\<close>: both leading axes, so the time axis, are kept, and the
  feature axis is twice the hidden size.  The result is the dropout of the output sequence of
  the GRU, a single bidirectional layer, run on the GELU of the layer normalization of the
  input, which normalizes the vectors along the last axis.
\<close>

theorem C5_BidirectionalGRU:
  assumes "m = BidirectionalGRU_init rnn_dim hidden_size dropout batch_first w"
    and "shape x = [d0, d1, rnn_dim]"
    and "0 < (if batch_first then d1 else d0)"
  shows "\<exists>x1 x2 h_n.
           LayerNorm_forward (birnn_layer_norm m) x = Inr x1
         \<and> shape x1 = shape x
         \<and> (\<forall>i. elem x1 i = ln_apply (birnn_layer_norm m) (trailing_vector x i) ! last i)
         \<and> GRU_forward (BiGRU m) (gelu num x1) = Inr (x2, h_n)
         \<and> gru_num_layers (BiGRU m) = 1 \<and> gru_bidirectional (BiGRU m)
         \<and> gru_hidden_size (BiGRU m) = hidden_size
         \<and> BidirectionalGRU_forward num training m x g =
             Inr (Dropout_forward num training (birnn_dropout m) x2 g)
         \<and> shape (fst (Dropout_forward num training (birnn_dropout m) x2 g)) =
             [d0, d1, 2 * hidden_size]"
proof -
  let ?x1 = "\<lparr>shape = shape x,
              elem = (\<lambda>i. ln_apply (birnn_layer_norm m) (trailing_vector x i) ! last i)\<rparr>"
  let ?x2 = "\<lparr>shape = [d0, d1, 2 * hidden_size],
              elem = fst (gru_apply (BiGRU m) (gelu num ?x1))\<rparr>"
  let ?h = "\<lparr>shape = [2, if batch_first then d0 else d1, hidden_size],
              elem = snd (gru_apply (BiGRU m) (gelu num ?x1))\<rparr>"
  have ln: "LayerNorm_forward (birnn_layer_norm m) x = Inr ?x1"
    using assms(2)
    by (simp add: LayerNorm_forward_def LayerNorm_shape_def assms(1) BidirectionalGRU_init_simps)
  have gru: "GRU_forward (BiGRU m) (gelu num ?x1) = Inr (?x2, ?h)"
    using assms(2,3)
    by (simp add: GRU_forward_def assms(1) BidirectionalGRU_init_simps gru_directions_def)
  have fwd: "BidirectionalGRU_forward num training m x g =
               Inr (Dropout_forward num training (birnn_dropout m) ?x2 g)"
    unfolding BidirectionalGRU_forward_def ln and_then_Inr gru by simp
  have cfg: "gru_num_layers (BiGRU m) = 1" "gru_bidirectional (BiGRU m)"
    "gru_hidden_size (BiGRU m) = hidden_size"
    by (simp_all add: assms(1) BidirectionalGRU_init_simps)
  show ?thesis
    apply (rule exI[of _ ?x1], rule exI[of _ ?x2], rule exI[of _ ?h])
    using ln gru fwd cfg by simp
qed

theorem C5_BidirectionalGRU_witness:
  "shape (sample_tensor [2, 150, 256]) = [2, 150, 256]
   \<and> (0::nat) < (if True then 150 else 2)
   \<and> (\<exists>y g'. BidirectionalGRU_forward sample_numerics True
          (BidirectionalGRU_init 256 256 default_dropout True (w_birnn_layers sample_weights 0))
          (sample_tensor [2, 150, 256]) 0 = Inr (y, g')
        \<and> shape y = [2, 150, 512])"
proof -
  have s: "shape (sample_tensor [2, 150, 256]) = [2, 150, 256]"
    by (simp add: sample_tensor_def)
  have p: "(0::nat) < (if True then 150 else 2)" by simp
  from C5_BidirectionalGRU[OF refl s p, where hidden_size=256 and dropout=default_dropout
      and w="w_birnn_layers sample_weights 0" and num=sample_numerics and training=True
      and g=0]
  obtain x2 where
    "BidirectionalGRU_forward sample_numerics True
       (BidirectionalGRU_init 256 256 default_dropout True (w_birnn_layers sample_weights 0))
       (sample_tensor [2, 150, 256]) 0 =
     Inr (Dropout_forward sample_numerics True
       (birnn_dropout (BidirectionalGRU_init 256 256 default_dropout True
          (w_birnn_layers sample_weights 0))) x2 0)"
    "shape (fst (Dropout_forward sample_numerics True
       (birnn_dropout (BidirectionalGRU_init 256 256 default_dropout True
          (w_birnn_layers sample_weights 0))) x2 0)) = [2, 150, 2 * 256]"
    by blast
  then show ?thesis using s p
    by (metis (no_types, lifting) mult_2 numeral_Bit0 prod.collapse)
qed

section \<open>The normalization wrapper\<close>

text \<open>
  Claim C6.  On a 4D input \<open>(b, c, f, t)\<close> whose feature axis has the configured width, the
  wrapper returns a tensor of the same shape, whose element at \<open>(i, j, k, l)\<close> is the \<open>k\<close>-th
  element of the normalization of the feature vector of the input at batch \<open>i\<close>, channel
  \<open>j\<close> and time \<open>l\<close>.  It gets there by transposing axes 2 and 3, normalizing along the last
  axis, and transposing axes 2 and 3 again.
\<close>

theorem C6_CNNLayerNorm:
  assumes "shape x = [b, c, f, t]"
    and "f = ln_normalized_shape (layer_norm m)"
  shows "\<exists>x1 x2 y.
           transpose_t 2 3 x = Inr x1 \<and> shape x1 = [b, c, t, f]
         \<and> LayerNorm_forward (layer_norm m) x1 = Inr x2 \<and> shape x2 = [b, c, t, f]
         \<and> transpose_t 2 3 x2 = Inr y
         \<and> CNNLayerNorm_forward m x = Inr y
         \<and> shape y = shape x
         \<and> (\<forall>i j k l. elem y [i, j, k, l] =
               ln_apply (layer_norm m) (map (\<lambda>q. elem x [i, j, q, l]) [0..<f]) ! k)"
proof -
  let ?x1 = "\<lparr>shape = [b, c, t, f], elem = (\<lambda>i. elem x (swap 2 3 i))\<rparr>"
  let ?x2 = "\<lparr>shape = [b, c, t, f],
              elem = (\<lambda>i. ln_apply (layer_norm m) (trailing_vector ?x1 i) ! last i)\<rparr>"
  let ?y = "\<lparr>shape = [b, c, f, t], elem = (\<lambda>i. elem ?x2 (swap 2 3 i))\<rparr>"
  have t1: "transpose_t 2 3 x = Inr ?x1"
    using assms(1) by (simp add: transpose_t_def transpose_shape_def)
  have ln: "LayerNorm_forward (layer_norm m) ?x1 = Inr ?x2"
    using assms(2) by (simp add: LayerNorm_forward_def LayerNorm_shape_def)
  have t2: "transpose_t 2 3 ?x2 = Inr ?y"
    by (simp add: transpose_t_def transpose_shape_def)
  have fwd: "CNNLayerNorm_forward m x = Inr ?y"
    unfolding CNNLayerNorm_forward_def t1 and_then_Inr contiguous_def ln t2 ..
  have el: "elem ?y [i, j, k, l] =
              ln_apply (layer_norm m) (map (\<lambda>q. elem x [i, j, q, l]) [0..<f]) ! k" for i j k l
    by (simp add: trailing_vector_def)
  show ?thesis
    apply (rule exI[of _ ?x1], rule exI[of _ ?x2], rule exI[of _ ?y])
    using t1 ln t2 fwd el assms(1) by simp
qed

theorem C6_CNNLayerNorm_witness:
  "shape (sample_tensor [2, 32, 3, 5]) = [2, 32, 3, 5]
   \<and> 3 = ln_normalized_shape (layer_norm (CNNLayerNorm_init 3 rev))
   \<and> (\<exists>y. CNNLayerNorm_forward (CNNLayerNorm_init 3 rev) (sample_tensor [2, 32, 3, 5]) = Inr y
        \<and> shape y = [2, 32, 3, 5]
        \<and> elem y [1, 0, 0, 4] = 7)"
proof -
  have s: "shape (sample_tensor [2, 32, 3, 5]) = [2, 32, 3, 5]"
    by (simp add: sample_tensor_def)
  have n: "3 = ln_normalized_shape (layer_norm (CNNLayerNorm_init 3 rev))"
    by (simp add: CNNLayerNorm_init_def LayerNorm_init_def)
  from C6_CNNLayerNorm[OF s n] obtain y where
    y: "CNNLayerNorm_forward (CNNLayerNorm_init 3 rev) (sample_tensor [2, 32, 3, 5]) = Inr y"
      "shape y = shape (sample_tensor [2, 32, 3, 5])"
      "\<forall>i j k l. elem y [i, j, k, l] =
         ln_apply (layer_norm (CNNLayerNorm_init 3 rev))
           (map (\<lambda>q. elem (sample_tensor [2, 32, 3, 5]) [i, j, q, l]) [0..<3]) ! k"
    by blast
  from y(3) have "elem y [1, 0, 0, 4] = 7"
    by (simp add: CNNLayerNorm_init_def LayerNorm_init_def sample_tensor_def upt_conv_Cons)
  with y s n show ?thesis by auto
qed

section \<open>Shape rules of the stacks\<close>

lemma Sequential_shape_preserves:
  assumes "\<And>m s s'. f m s = Inr s' \<Longrightarrow> length s' = length s \<and> hd s' = hd s"
    and "Sequential_shape f ms s = Inr s'"
  shows "length s' = length s \<and> hd s' = hd s"
  using assms(2)
proof (induction ms arbitrary: s)
  case Nil
  then show ?case by simp
next
  case (Cons m ms)
  from Cons.prems obtain s1 where 1: "f m s = Inr s1" and 2: "Sequential_shape f ms s1 = Inr s'"
    by (auto simp: and_then_eq_Inr)
  from assms(1)[OF 1] Cons.IH[OF 2] show ?case by simp
qed

lemma Sequential_shape_fixed:
  assumes "\<And>m. m \<in> set ms \<Longrightarrow> f m s = Inr s"
  shows "Sequential_shape f ms s = Inr s"
  using assms by (induction ms) simp_all

lemma Sequential_ResidualCNN_hd:
  assumes "Sequential_shape ResidualCNN_shape ms s = Inr s'"
  shows "length s' = length s \<and> hd s' = hd s"
  using Sequential_shape_preserves[of ResidualCNN_shape ms s s'] ResidualCNN_shape_hd assms
  by metis

lemma Sequential_BidirectionalGRU_hd:
  assumes "Sequential_shape BidirectionalGRU_shape ms s = Inr s'"
  shows "length s' = length s \<and> hd s' = hd s"
  using Sequential_shape_preserves[of BidirectionalGRU_shape ms s s'] BidirectionalGRU_shape_hd
    assms
  by metis

lemma rescnn_stack_ok:
  assumes "0 < n_feats" and "0 < t"
  shows "Sequential_shape ResidualCNN_shape
           (map (\<lambda>i. ResidualCNN_init 32 32 3 1 dropout n_feats (w i)) is)
           [b, 32, n_feats, t] = Inr [b, 32, n_feats, t]"
proof (rule Sequential_shape_fixed)
  fix m
  assume "m \<in> set (map (\<lambda>i. ResidualCNN_init 32 32 3 1 dropout n_feats (w i)) is)"
  then obtain i where "m = ResidualCNN_init 32 32 3 1 dropout n_feats (w i)" by auto
  then show "ResidualCNN_shape m [b, 32, n_feats, t] = Inr [b, 32, n_feats, t]"
    using ResidualCNN_init_shape_ok[where kernel'=3 and n_feats=n_feats and t=t
        and in_channels=32 and out_channels=32 and b=b and dropout=dropout and w="w i"] assms
    by simp
qed

lemma rescnn_stack_mismatch:
  assumes "f \<noteq> n_feats" and "0 < n"
  shows "Sequential_shape ResidualCNN_shape
           (map (\<lambda>i. ResidualCNN_init 32 32 3 1 dropout n_feats (w i)) [0..<n])
           [b, c, f, t] = Inl (LayerNormShape n_feats [b, c, t, f])"
proof -
  from assms(2) have "[0..<n] = 0 # [1..<n]" by (simp add: upt_conv_Cons)
  then show ?thesis
    using ResidualCNN_init_shape_mismatch[OF assms(1), where in_channels=32 and out_channels=32
        and kernel'=3 and stride=1 and dropout=dropout and w="w 0" and b=b and c=c and t=t]
    by simp
qed

lemma birnn_tail_ok:
  assumes "0 < b" and "0 \<notin> set is"
  shows "Sequential_shape BidirectionalGRU_shape
           (map (\<lambda>i. BidirectionalGRU_init (if i = 0 then rnn_dim else rnn_dim * 2) rnn_dim
                      dropout (i = 0) (w i)) is)
           [b, t, 2 * rnn_dim] = Inr [b, t, 2 * rnn_dim]"
proof (rule Sequential_shape_fixed)
  fix m
  assume "m \<in> set (map (\<lambda>i. BidirectionalGRU_init (if i = 0 then rnn_dim else rnn_dim * 2)
                               rnn_dim dropout (i = 0) (w i)) is)"
  then obtain i where "i \<in> set is"
    and "m = BidirectionalGRU_init (if i = 0 then rnn_dim else rnn_dim * 2) rnn_dim dropout
               (i = 0) (w i)"
    by auto
  with assms have "m = BidirectionalGRU_init (rnn_dim * 2) rnn_dim dropout False (w i)"
    by auto
  then show "BidirectionalGRU_shape m [b, t, 2 * rnn_dim] = Inr [b, t, 2 * rnn_dim]"
    using assms(1) by (simp add: BidirectionalGRU_init_shape_3d)
qed

lemma birnn_stack_ok:
  assumes "0 < n" and "0 < t" and "1 < n \<longrightarrow> 0 < b"
  shows "Sequential_shape BidirectionalGRU_shape
           (map (\<lambda>i. BidirectionalGRU_init (if i = 0 then rnn_dim else rnn_dim * 2) rnn_dim
                      dropout (i = 0) (w i)) [0..<n])
           [b, t, rnn_dim] = Inr [b, t, 2 * rnn_dim]"
proof -
  from assms(1) have split: "[0..<n] = 0 # [1..<n]" by (simp add: upt_conv_Cons)
  show ?thesis
  proof (cases "1 < n")
    case True
    with assms(3) have "0 < b" by simp
    from birnn_tail_ok[OF this, of "[1..<n]" rnn_dim dropout w t] assms(2) show ?thesis
      unfolding split by (simp add: BidirectionalGRU_init_shape_3d)
  next
    case False
    with assms(1) have "n = 1" by simp
    with assms(2) show ?thesis by (simp add: BidirectionalGRU_init_shape_3d)
  qed
qed

lemma birnn_stack_empty_batch:
  assumes "1 < n" and "0 < t"
  shows "Sequential_shape BidirectionalGRU_shape
           (map (\<lambda>i. BidirectionalGRU_init (if i = 0 then rnn_dim else rnn_dim * 2) rnn_dim
                      dropout (i = 0) (w i)) [0..<n])
           [0, t, rnn_dim] = Inl GRUEmptySequence"
proof -
  from assms(1) have split: "[0..<n] = 0 # Suc 0 # [Suc (Suc 0)..<n]"
    by (simp add: upt_conv_Cons)
  show ?thesis unfolding split using assms(2)
    by (simp add: BidirectionalGRU_init_shape_3d)
qed

section \<open>Shape rules of the top-level model\<close>

lemma Conv2d_shape_length:
  assumes "Conv2d_shape c s = Inr s'"
  shows "length s' = length s"
  using assms
  by (cases "(c, s)" rule: Conv2d_shape.cases)
    (auto simp: conv_spatial_def and_then_eq_Inr split: if_splits)

lemma initial_conv_shape:
  assumes "0 < stride" and "0 < f" and "0 < t"
  shows "Conv2d_shape (Conv2d_init 1 32 3 stride 1 w) [b, 1, f, t] =
           Inr [b, 32, (f - 1) div stride + 1, (t - 1) div stride + 1]"
  using assms by (simp add: conv_spatial_def Conv2d_init_def conv_out_def)

lemma index_at_4d:
  "index_at [a, b, c, d] 0 = Inr a" "index_at [a, b, c, d] 1 = Inr b"
  "index_at [a, b, c, d] 2 = Inr c" "index_at [a, b, c, d] 3 = Inr d"
  by (simp_all add: index_at_def eval_nat_numeral)

lemma view_shape_merge: "view_shape [a, b * c, d] [a, b, c, d] = Inr [a, b * c, d]"
  by (simp add: view_shape_def)

lemma transpose_shape_1_2: "transpose_shape 1 2 [a, b, c] = Inr [a, c, b]"
  by (simp add: transpose_shape_def swap_def eval_nat_numeral)

lemma Linear_init_shape_3d:
  "Linear_shape (Linear_init n_in n_out w) [a, b, c] =
     (if c = n_in then Inr [a, b, n_out] else Inl (LinearShape n_in [a, b, c]))"
  by (simp add: Linear_shape_def Linear_init_def)

lemma classifier_init_shape:
  "Classifier_shape
     \<lparr>classifier_0 = Linear_init (rnn_dim * 2) rnn_dim w0, classifier_2 = d,
      classifier_3 = Linear_init rnn_dim n_class w3\<rparr> [a, b, c] =
     (if c = rnn_dim * 2 then Inr [a, b, n_class]
      else Inl (LinearShape (rnn_dim * 2) [a, b, c]))"
  by (simp add: Classifier_shape_def Linear_init_shape_3d)

text \<open>The stages before the recurrent stack, on a model the constructor built.\<close>

lemma model_front:
  assumes "0 < stride" and "0 < f" and "0 < t"
    and "M = SpeechRecognitionModel_init n_cnn_layers n_rnn_layers rnn_dim n_class n_feats
               stride dropout w"
    and "f' = (f - 1) div stride + 1" and "t' = (t - 1) div stride + 1"
  shows "SpeechRecognitionModel_shape M [b, 1, f, t] =
     (if f' = n_feats div 2
      then and_then (Sequential_shape BidirectionalGRU_shape (birnn_layers M) [b, t', rnn_dim])
             (Classifier_shape (classifier M))
      else if 0 < n_cnn_layers then Inl (LayerNormShape (n_feats div 2) [b, 32, t', f'])
      else Inl (LinearShape (n_feats div 2 * 32) [b, t', 32 * f']))"
proof -
  have c: "Conv2d_shape (cnn M) [b, 1, f, t] = Inr [b, 32, f', t']"
    unfolding assms(4) cnn_init assms(5,6) by (rule initial_conv_shape[OF assms(1-3)])
  have pos: "0 < f'" "0 < t'" by (simp_all add: assms(5,6))
  show ?thesis
  proof (cases "f' = n_feats div 2")
    case True
    have r: "Sequential_shape ResidualCNN_shape (rescnn_layers M) [b, 32, f', t'] =
               Inr [b, 32, f', t']"
      unfolding assms(4) rescnn_layers_init True
      using pos True by (intro rescnn_stack_ok) simp_all
    have l: "Linear_shape (fully_connected M) [b, t', 32 * f'] = Inr [b, t', rnn_dim]"
      unfolding assms(4) fully_connected_init using True
      by (simp add: Linear_init_shape_3d)
    show ?thesis
      unfolding SpeechRecognitionModel_shape_def c and_then_Inr r index_at_4d view_shape_merge
        transpose_shape_1_2 l
      using True by simp
  next
    case False
    show ?thesis
    proof (cases "0 < n_cnn_layers")
      case True
      have r: "Sequential_shape ResidualCNN_shape (rescnn_layers M) [b, 32, f', t'] =
                 Inl (LayerNormShape (n_feats div 2) [b, 32, t', f'])"
        unfolding assms(4) rescnn_layers_init
        by (rule rescnn_stack_mismatch[OF False True])
      show ?thesis
        unfolding SpeechRecognitionModel_shape_def c and_then_Inr r and_then_Inl
        using False True by simp
    next
      case no: False
      then have r: "rescnn_layers M = []"
        unfolding assms(4) rescnn_layers_init by simp
      have l: "Linear_shape (fully_connected M) [b, t', 32 * f'] =
                 Inl (LinearShape (n_feats div 2 * 32) [b, t', 32 * f'])"
        unfolding assms(4) fully_connected_init using False
        by (simp add: Linear_init_shape_3d)
      show ?thesis
        unfolding SpeechRecognitionModel_shape_def c and_then_Inr r Sequential_shape.simps
          index_at_4d view_shape_merge transpose_shape_1_2 l and_then_Inl
        using False no by simp
    qed
  qed
qed

lemma model_shape_ok:
  assumes "0 < stride" and "0 < f" and "0 < t"
    and "(f - 1) div stride + 1 = n_feats div 2"
    and "0 < n_rnn_layers" and "1 < n_rnn_layers \<longrightarrow> 0 < b"
  shows "SpeechRecognitionModel_shape
           (SpeechRecognitionModel_init n_cnn_layers n_rnn_layers rnn_dim n_class n_feats stride
              dropout w) [b, 1, f, t] = Inr [b, (t - 1) div stride + 1, n_class]"
proof -
  let ?M = "SpeechRecognitionModel_init n_cnn_layers n_rnn_layers rnn_dim n_class n_feats stride
              dropout w"
  let ?t = "(t - 1) div stride + 1"
  have g: "Sequential_shape BidirectionalGRU_shape (birnn_layers ?M) [b, ?t, rnn_dim] =
             Inr [b, ?t, 2 * rnn_dim]"
    unfolding birnn_layers_init using assms(5,6) by (intro birnn_stack_ok) simp_all
  have k: "Classifier_shape (classifier ?M) [b, ?t, 2 * rnn_dim] = Inr [b, ?t, n_class]"
    unfolding classifier_init by (simp add: classifier_init_shape)
  show ?thesis
    unfolding model_front[OF assms(1-3) refl refl refl] g and_then_Inr k
    using assms(4) by simp
qed

lemma model_shape_no_rnn:
  assumes "0 < stride" and "0 < f" and "0 < t"
    and "(f - 1) div stride + 1 = n_feats div 2"
  shows "SpeechRecognitionModel_shape
           (SpeechRecognitionModel_init n_cnn_layers 0 rnn_dim n_class n_feats stride
              dropout w) [b, 1, f, t] =
           (if rnn_dim = 0 then Inr [b, (t - 1) div stride + 1, n_class]
            else Inl (LinearShape (rnn_dim * 2) [b, (t - 1) div stride + 1, rnn_dim]))"
proof -
  let ?M = "SpeechRecognitionModel_init n_cnn_layers 0 rnn_dim n_class n_feats stride dropout w"
  have g: "birnn_layers ?M = []"
    unfolding birnn_layers_init by simp
  show ?thesis
    unfolding model_front[OF assms(1-3) refl refl refl] g Sequential_shape.simps and_then_Inr
      classifier_init
    using assms(4) by (simp add: classifier_init_shape)
qed

lemma index_at_Inr: "index_at s d = Inr n \<longleftrightarrow> d < length s \<and> n = s ! d"
  by (auto simp: index_at_def)

lemma view_shape_Inr: "view_shape new s = Inr s' \<longleftrightarrow> prod_list new = prod_list s \<and> s' = new"
  by (auto simp: view_shape_def)

lemma Classifier_shape_Inr:
  assumes "Classifier_shape c s = Inr s'"
  shows "s \<noteq> [] \<and> last s = lin_in_features (classifier_0 c)
       \<and> s' = butlast s @ [lin_out_features (classifier_3 c)]"
  using assms by (auto simp: Classifier_shape_def and_then_eq_Inr Linear_shape_Inr)

text \<open>
  What a successful run of the model went through, for any model, whether the constructor
  built it or not.
\<close>

lemma model_shape_Inr:
  assumes "SpeechRecognitionModel_shape m s = Inr s'"
  shows "\<exists>b f t c f' t' s6.
           s = [b, conv_in_channels (cnn m), f, t]
         \<and> Sequential_shape ResidualCNN_shape (rescnn_layers m)
             [b, conv_out_channels (cnn m), conv_out (cnn m) f, conv_out (cnn m) t] =
               Inr [b, c, f', t']
         \<and> c * f' = lin_in_features (fully_connected m)
         \<and> Sequential_shape BidirectionalGRU_shape (birnn_layers m)
             [b, t', lin_out_features (fully_connected m)] = Inr s6
         \<and> length s6 = 3 \<and> hd s6 = b
         \<and> last s6 = lin_in_features (classifier_0 (classifier m))
         \<and> s' = butlast s6 @ [lin_out_features (classifier_3 (classifier m))]"
proof -
  from assms obtain s1 s2 n0 n1 n2 n3 s3 s4 s5 s6 where
    c: "Conv2d_shape (cnn m) s = Inr s1"
    and r: "Sequential_shape ResidualCNN_shape (rescnn_layers m) s1 = Inr s2"
    and i: "index_at s2 0 = Inr n0" "index_at s2 1 = Inr n1" "index_at s2 2 = Inr n2"
      "index_at s2 3 = Inr n3"
    and v: "view_shape [n0, n1 * n2, n3] s2 = Inr s3"
    and t: "transpose_shape 1 2 s3 = Inr s4"
    and l: "Linear_shape (fully_connected m) s4 = Inr s5"
    and g: "Sequential_shape BidirectionalGRU_shape (birnn_layers m) s5 = Inr s6"
    and k: "Classifier_shape (classifier m) s6 = Inr s'"
    unfolding SpeechRecognitionModel_shape_def and_then_eq_Inr by blast
  from r have len: "length s2 = length s1" "hd s2 = hd s1"
    using Sequential_ResidualCNN_hd by blast+
  from i(4) have "3 < length s2" by (simp add: index_at_Inr)
  with len c have 4: "3 < length s" using Conv2d_shape_length by fastforce
  from Conv2d_shape_Inr[OF c 4] obtain b f t where
    s: "s = [b, conv_in_channels (cnn m), f, t]"
    and s1: "s1 = [b, conv_out_channels (cnn m), conv_out (cnn m) f, conv_out (cnn m) t]"
    by blast
  from len s1 have "length s2 = 4" by simp
  then obtain a0 a1 a2 a3 where s2: "s2 = [a0, a1, a2, a3]"
    by (auto simp: length_Suc_conv eval_nat_numeral)
  with len s1 have a0: "a0 = b" by simp
  from i s2 have n: "n0 = a0" "n1 = a1" "n2 = a2" "n3 = a3"
    by (simp_all add: index_at_Inr eval_nat_numeral)
  from v n have s3: "s3 = [a0, a1 * a2, a3]" by (simp add: view_shape_Inr)
  from t s3 have s4: "s4 = [a0, a3, a1 * a2]"
    using transpose_shape_1_2[of a0 "a1 * a2" a3] by simp
  from l s4 have s5: "s5 = [a0, a3, lin_out_features (fully_connected m)]"
    and w: "a1 * a2 = lin_in_features (fully_connected m)"
    by (auto simp: Linear_shape_Inr)
  from g s5 have s6: "length s6 = 3" "hd s6 = a0"
    using Sequential_BidirectionalGRU_hd by fastforce+
  from Classifier_shape_Inr[OF k] have
    "last s6 = lin_in_features (classifier_0 (classifier m))"
    "s' = butlast s6 @ [lin_out_features (classifier_3 (classifier m))]" by simp_all
  with s r s1 s2 a0 w g s5 s6 show ?thesis by blast
qed

lemma model_shape_hd:
  assumes "SpeechRecognitionModel_shape m s = Inr s'"
  shows "length s = 4 \<and> length s' = 3 \<and> hd s' = hd s"
proof -
  from model_shape_Inr[OF assms] obtain b f t s6 v where
    "s = [b, conv_in_channels (cnn m), f, t]" "length s6 = 3" "hd s6 = b"
    "s' = butlast s6 @ [v]" by blast
  then show ?thesis by (cases s6) (auto simp: hd_append)
qed

lemma model_no_rnn_fails:
  assumes "SpeechRecognitionModel_shape
             (SpeechRecognitionModel_init n_cnn_layers 0 rnn_dim n_class n_feats stride dropout w)
             s = Inr s'"
  shows "rnn_dim = 0"
proof -
  let ?M = "SpeechRecognitionModel_init n_cnn_layers 0 rnn_dim n_class n_feats stride dropout w"
  from model_shape_Inr[OF assms] obtain b t' s6 where
    g: "Sequential_shape BidirectionalGRU_shape (birnn_layers ?M)
          [b, t', lin_out_features (fully_connected ?M)] = Inr s6"
    and k: "last s6 = lin_in_features (classifier_0 (classifier ?M))"
    by blast
  from g have "s6 = [b, t', rnn_dim]"
    by (simp add: birnn_layers_init fully_connected_init Linear_init_def)
  with k show ?thesis by (simp add: classifier_init Linear_init_def)
qed

section \<open>The top-level model\<close>

lemma model_forward_ok:
  assumes "0 < stride" and "0 < f" and "0 < t"
    and "(f - 1) div stride + 1 = n_feats div 2"
    and "0 < n_rnn_layers" and "1 < n_rnn_layers \<longrightarrow> 0 < b"
    and "shape x = [b, 1, f, t]"
  shows "\<exists>y g'. SpeechRecognitionModel_forward num training
            (SpeechRecognitionModel_init n_cnn_layers n_rnn_layers rnn_dim n_class n_feats stride
               dropout w) x g = Inr (y, g')
        \<and> shape y = [b, (t - 1) div stride + 1, n_class]"
proof -
  let ?M = "SpeechRecognitionModel_init n_cnn_layers n_rnn_layers rnn_dim n_class n_feats stride
               dropout w"
  have "shape_of (SpeechRecognitionModel_forward num training ?M x g) =
          Inr [b, (t - 1) div stride + 1, n_class]"
    unfolding SpeechRecognitionModel_forward_shape assms(7)
    by (rule model_shape_ok[OF assms(1-6)])
  then show ?thesis unfolding shape_of_eq_Inr .
qed

text \<open>
  Claim C1.  The model built with \<open>n_cnn_layers = 3\<close>, \<open>n_rnn_layers = 2\<close>, \<open>rnn_dim = 256\<close>,
  \<open>n_class = 29\<close>, \<open>n_feats = 128\<close> and the default stride returns, on an input of shape
  \<open>(2, 1, 128, 300)\<close>, a tensor of shape \<open>(2, 150, 29)\<close>: whatever the elements of the input,
  the parameters, the dropout probability, the mode and the generator's state.
\<close>

theorem C1_end_to_end:
  "\<exists>y g'. SpeechRecognitionModel_forward num training
            (SpeechRecognitionModel_init 3 2 256 29 128 default_stride dropout w)
            \<lparr>shape = [2, 1, 128, 300], elem = e\<rparr> g = Inr (y, g')
        \<and> shape y = [2, 150, 29]"
  using model_forward_ok[where stride=default_stride and f=128 and t=300 and n_feats=128
      and n_rnn_layers=2 and b=2 and x="\<lparr>shape = [2, 1, 128, 300], elem = e\<rparr>"
      and n_cnn_layers=3 and rnn_dim=256 and n_class=29 and num=num and training=training
      and dropout=dropout and w=w and g=g]
  by (simp add: default_stride_def)

theorem C1_end_to_end_witness:
  "\<exists>y g'. SpeechRecognitionModel_forward sample_numerics True
            (SpeechRecognitionModel_init 3 2 256 29 128 default_stride default_dropout
               sample_weights)
            \<lparr>shape = [2, 1, 128, 300], elem = (\<lambda>i. 0)\<rparr> (0::nat) = Inr (y, g')
        \<and> shape y = [2, 150, 29]"
  by (rule C1_end_to_end)

text \<open>
  Claim C3.  The axis-order mode is to be the same for all recurrent blocks stacked in a model;
  the constructor does not build them so.  The tensor that enters the stack is (batch, time,
  feature) and no block transposes it, yet in the scenario's model the first block is built
  batch-first and the second time-first, so the second block takes the batch axis for the
  sequence.  On an empty batch the model with one recurrent block returns, and the model with
  two fails on an empty sequence.
\<close>

theorem C3_axis_order_mismatch:
  "gru_batch_first (BiGRU (birnn_layers
      (SpeechRecognitionModel_init 3 2 256 29 128 default_stride default_dropout sample_weights)
      ! 0))
   \<and> \<not> gru_batch_first (BiGRU (birnn_layers
      (SpeechRecognitionModel_init 3 2 256 29 128 default_stride default_dropout sample_weights)
      ! 1))
   \<and> shape_of (SpeechRecognitionModel_forward sample_numerics False
        (SpeechRecognitionModel_init 3 1 256 29 128 default_stride default_dropout sample_weights)
        (sample_tensor [0, 1, 128, 300]) 0) = Inr [0, 150, 29]
   \<and> shape_of (SpeechRecognitionModel_forward sample_numerics False
        (SpeechRecognitionModel_init 3 2 256 29 128 default_stride default_dropout sample_weights)
        (sample_tensor [0, 1, 128, 300]) 0) = Inl GRUEmptySequence"
proof -
  let ?M1 = "SpeechRecognitionModel_init 3 1 256 29 128 default_stride default_dropout
               sample_weights"
  let ?M2 = "SpeechRecognitionModel_init 3 2 256 29 128 default_stride default_dropout
               sample_weights"
  have modes: "gru_batch_first (BiGRU (birnn_layers ?M2 ! 0))"
    "\<not> gru_batch_first (BiGRU (birnn_layers ?M2 ! 1))"
    by (simp_all add: birnn_layers_batch_first)
  have one: "SpeechRecognitionModel_shape ?M1 [0, 1, 128, 300] = Inr [0, 150, 29]"
    using model_shape_ok[where stride=default_stride and f=128 and t=300 and n_feats=128
        and n_rnn_layers=1 and b=0 and n_cnn_layers=3 and rnn_dim=256 and n_class=29
        and dropout=default_dropout and w=sample_weights]
    by (simp add: default_stride_def)
  have front: "SpeechRecognitionModel_shape ?M2 [0, 1, 128, 300] =
      and_then (Sequential_shape BidirectionalGRU_shape (birnn_layers ?M2) [0, 150, 256])
        (Classifier_shape (classifier ?M2))"
    using model_front[OF _ _ _ refl refl refl, where stride=default_stride and f=128 and t=300
        and n_cnn_layers=3 and n_rnn_layers=2 and rnn_dim=256 and n_class=29 and n_feats=128
        and dropout=default_dropout and w=sample_weights and b=0]
    by (simp add: default_stride_def)
  have stack: "Sequential_shape BidirectionalGRU_shape (birnn_layers ?M2) [0, 150, 256] =
      Inl GRUEmptySequence"
    unfolding birnn_layers_init by (rule birnn_stack_empty_batch) simp_all
  have two: "SpeechRecognitionModel_shape ?M2 [0, 1, 128, 300] = Inl GRUEmptySequence"
    unfolding front stack by simp
  from modes one two show ?thesis
    by (simp add: SpeechRecognitionModel_forward_shape sample_tensor_def)
qed

text \<open>
  Claim C7.  When the forward pass of a model returns, its input has four axes and its output
  three, and the first axis of the output has the length of the first axis of the input.  So
  has the output of every unit on the way: the initial convolution, the normalization wrapper,
  a residual block, the view that merges channel and feature, the transposition of axes 1 and
  2, the linear projection, a bidirectional recurrent block and the classifier.
\<close>

theorem C7_batch_preserved:
  "(SpeechRecognitionModel_forward num training m x g = Inr (y, g') \<longrightarrow>
      length (shape x) = 4 \<and> length (shape y) = 3 \<and> hd (shape y) = hd (shape x))
   \<and> (Conv2d_forward c x = Inr y1 \<longrightarrow> length (shape x) = 4 \<longrightarrow> hd (shape y1) = hd (shape x))
   \<and> (CNNLayerNorm_forward n x = Inr y2 \<longrightarrow> shape y2 = shape x)
   \<and> (ResidualCNN_forward num training r x g = Inr (y3, g3) \<longrightarrow> hd (shape y3) = hd (shape x))
   \<and> (length (shape x) = 4 \<longrightarrow>
        view [shape x ! 0, shape x ! 1 * shape x ! 2, shape x ! 3] x = Inr y4 \<longrightarrow>
        hd (shape y4) = hd (shape x))
   \<and> (transpose_t 1 2 x = Inr y5 \<longrightarrow> hd (shape y5) = hd (shape x))
   \<and> (Linear_forward l x = Inr y6 \<longrightarrow> 1 < length (shape x) \<longrightarrow> hd (shape y6) = hd (shape x))
   \<and> (BidirectionalGRU_forward num training u x g = Inr (y7, g7) \<longrightarrow>
        hd (shape y7) = hd (shape x))
   \<and> (Classifier_forward num training k x g = Inr (y8, g8) \<longrightarrow> 1 < length (shape x) \<longrightarrow>
        hd (shape y8) = hd (shape x))"
proof -
  have a: "length (shape x) = 4 \<and> length (shape y) = 3 \<and> hd (shape y) = hd (shape x)"
    if "SpeechRecognitionModel_forward num training m x g = Inr (y, g')"
    using model_shape_hd[OF shape_of_InrD[OF SpeechRecognitionModel_forward_shape that]] .
  have b: "hd (shape y1) = hd (shape x)"
    if "Conv2d_forward c x = Inr y1" "length (shape x) = 4"
    using Conv2d_shape_Inr[OF res_InrD[OF Conv2d_forward_shape that(1)]] that(2) by auto
  have c: "shape y2 = shape x" if "CNNLayerNorm_forward n x = Inr y2"
    using CNNLayerNorm_shape_Inr[OF res_InrD[OF CNNLayerNorm_forward_shape that]] by simp
  have d: "hd (shape y3) = hd (shape x)"
    if "ResidualCNN_forward num training r x g = Inr (y3, g3)"
    using ResidualCNN_shape_hd[OF shape_of_InrD[OF ResidualCNN_forward_shape that]] by simp
  have e: "hd (shape y4) = hd (shape x)"
    if "length (shape x) = 4"
      "view [shape x ! 0, shape x ! 1 * shape x ! 2, shape x ! 3] x = Inr y4"
    using res_InrD[OF view_forward_shape that(2)] that(1)
    by (cases "shape x") (auto simp: view_shape_Inr)
  have f: "hd (shape y5) = hd (shape x)" if "transpose_t 1 2 x = Inr y5"
    using res_InrD[OF transpose_t_shape that] by (simp add: transpose_shape_Inr hd_swap)
  have g: "hd (shape y6) = hd (shape x)" if "Linear_forward l x = Inr y6" "1 < length (shape x)"
    using res_InrD[OF Linear_forward_shape that(1)] that(2)
    by (cases "shape x") (auto simp: Linear_shape_Inr split: if_splits)
  have h: "hd (shape y7) = hd (shape x)"
    if "BidirectionalGRU_forward num training u x g = Inr (y7, g7)"
    using BidirectionalGRU_shape_hd[OF shape_of_InrD[OF BidirectionalGRU_forward_shape that]]
    by simp
  have i: "hd (shape y8) = hd (shape x)"
    if "Classifier_forward num training k x g = Inr (y8, g8)" "1 < length (shape x)"
    using Classifier_shape_Inr[OF shape_of_InrD[OF Classifier_forward_shape that(1)]] that(2)
    by (cases "shape x") (auto split: if_splits)
  from a b c d e f g h i show ?thesis by blast
qed

theorem C7_batch_preserved_witness:
  "\<exists>y g'. SpeechRecognitionModel_forward sample_numerics True
            (SpeechRecognitionModel_init 3 2 256 29 128 default_stride default_dropout
               sample_weights)
            (sample_tensor [2, 1, 128, 300]) 0 = Inr (y, g')
        \<and> hd (shape y) = 2 \<and> hd (shape (sample_tensor [2, 1, 128, 300])) = 2"
proof -
  from model_forward_ok[where stride=default_stride and f=128 and t=300 and n_feats=128
      and n_rnn_layers=2 and b=2 and x="sample_tensor [2, 1, 128, 300]"
      and n_cnn_layers=3 and rnn_dim=256 and n_class=29 and num=sample_numerics
      and training=True and dropout=default_dropout and w=sample_weights and g=0]
  obtain y g' where
    y: "SpeechRecognitionModel_forward sample_numerics True
            (SpeechRecognitionModel_init 3 2 256 29 128 default_stride default_dropout
               sample_weights)
            (sample_tensor [2, 1, 128, 300]) 0 = Inr (y, g')"
    by (auto simp: default_stride_def sample_tensor_def)
  from C7_batch_preserved[where num=sample_numerics and training=True
      and m="SpeechRecognitionModel_init 3 2 256 29 128 default_stride default_dropout
               sample_weights"
      and x="sample_tensor [2, 1, 128, 300]" and g=0 and y=y and g'=g'] y
  have "hd (shape y) = hd (shape (sample_tensor [2, 1, 128, 300]))" by blast
  with y show ?thesis by (auto simp: sample_tensor_def)
qed

lemma halved_eq_conv_iff: "0 < n \<Longrightarrow> (n - 1) div 2 + 1 = n div 2 \<longleftrightarrow> even (n::nat)"
  by presburger

lemma layer_norm1_first_block:
  assumes "0 < n_cnn_layers"
  shows "layer_norm1 (rescnn_layers
           (SpeechRecognitionModel_init n_cnn_layers n_rnn_layers rnn_dim n_class n_feats stride
              dropout w) ! 0) =
         CNNLayerNorm_init (n_feats div 2) (w_layer_norm1 (w_rescnn_layers w 0))"
  using assms by (simp add: rescnn_layers_init ResidualCNN_init_def)

text \<open>
  Claim C9, as amended.  With the default stride the initial convolution takes a frequency axis
  of length \<open>n_feats \<ge> 1\<close> to length \<open>(n_feats - 1) div 2 + 1\<close>, which is the halved value
  \<open>n_feats div 2\<close> exactly when \<open>n_feats\<close> is even.  For an odd \<open>n_feats\<close> the forward pass on an
  input of that width fails with a shape mismatch: in the normalization layer of the first
  residual block when the model has one, and in the linear projection when it has none.
\<close>

theorem C9_odd_n_feats:
  assumes "M = SpeechRecognitionModel_init n_cnn_layers n_rnn_layers rnn_dim n_class n_feats
                 default_stride dropout w"
    and "shape x = [b, 1, n_feats, t]" and "0 < n_feats" and "0 < t"
    and "f' = (n_feats - 1) div 2 + 1" and "t' = (t - 1) div 2 + 1"
  shows "(\<exists>x1. Conv2d_forward (cnn M) x = Inr x1 \<and> shape x1 = [b, 32, f', t']
            \<and> (odd n_feats \<longrightarrow> 0 < n_cnn_layers \<longrightarrow>
                  CNNLayerNorm_forward (layer_norm1 (rescnn_layers M ! 0)) x1 =
                    Inl (LayerNormShape (n_feats div 2) [b, 32, t', f'])))
       \<and> (f' = n_feats div 2 \<longleftrightarrow> even n_feats)
       \<and> (odd n_feats \<longrightarrow> 0 < n_cnn_layers \<longrightarrow>
            SpeechRecognitionModel_forward num training M x g =
              Inl (LayerNormShape (n_feats div 2) [b, 32, t', f']))
       \<and> (odd n_feats \<longrightarrow> n_cnn_layers = 0 \<longrightarrow>
            SpeechRecognitionModel_forward num training M x g =
              Inl (LinearShape (n_feats div 2 * 32) [b, t', 32 * f']))"
proof -
  have iff: "f' = n_feats div 2 \<longleftrightarrow> even n_feats"
    unfolding assms(5) using assms(3) by (rule halved_eq_conv_iff)
  have "Conv2d_shape (cnn M) (shape x) = Inr [b, 32, f', t']"
    unfolding assms(1,2,5,6) cnn_init
    using initial_conv_shape[of default_stride n_feats t "w_cnn w" b] assms(3,4)
    by (simp add: default_stride_def)
  then obtain x1 where x1: "Conv2d_forward (cnn M) x = Inr x1" "shape x1 = [b, 32, f', t']"
    using Conv2d_forward_shape[of "cnn M" x] by (cases "Conv2d_forward (cnn M) x") auto
  have ln: "CNNLayerNorm_forward (layer_norm1 (rescnn_layers M ! 0)) x1 =
              Inl (LayerNormShape (n_feats div 2) [b, 32, t', f'])"
    if "odd n_feats" "0 < n_cnn_layers"
  proof -
    have "CNNLayerNorm_shape (layer_norm1 (rescnn_layers M ! 0)) (shape x1) =
            Inl (LayerNormShape (n_feats div 2) [b, 32, t', f'])"
      unfolding assms(1) layer_norm1_first_block[OF that(2)] x1(2)
      using that(1) iff
      by (simp add: CNNLayerNorm_shape_4d CNNLayerNorm_init_def LayerNorm_init_def)
    then show ?thesis
      using CNNLayerNorm_forward_shape[of "layer_norm1 (rescnn_layers M ! 0)" x1]
      by (cases "CNNLayerNorm_forward (layer_norm1 (rescnn_layers M ! 0)) x1") auto
  qed
  have sh: "shape_of (SpeechRecognitionModel_forward num training M x g) =
      (if f' = n_feats div 2
       then and_then (Sequential_shape BidirectionalGRU_shape (birnn_layers M) [b, t', rnn_dim])
              (Classifier_shape (classifier M))
       else if 0 < n_cnn_layers then Inl (LayerNormShape (n_feats div 2) [b, 32, t', f'])
       else Inl (LinearShape (n_feats div 2 * 32) [b, t', 32 * f']))"
    unfolding SpeechRecognitionModel_forward_shape assms(2)
    using model_front[OF _ assms(3,4,1), of f' t' b] assms(5,6)
    by (simp add: default_stride_def)
  have res: "SpeechRecognitionModel_forward num training M x g =
              Inl (LayerNormShape (n_feats div 2) [b, 32, t', f'])"
    if "odd n_feats" "0 < n_cnn_layers"
    using sh that iff by (simp add: shape_of_eq_Inl)
  have lin: "SpeechRecognitionModel_forward num training M x g =
              Inl (LinearShape (n_feats div 2 * 32) [b, t', 32 * f'])"
    if "odd n_feats" "n_cnn_layers = 0"
    using sh that iff by (simp add: shape_of_eq_Inl)
  from x1 ln iff res lin show ?thesis by blast
qed

theorem C9_odd_n_feats_witness:
  "shape (sample_tensor [2, 1, 5, 8]) = [2, 1, 5, 8] \<and> (0::nat) < 5 \<and> (0::nat) < 8
   \<and> odd (5::nat) \<and> (0::nat) < 3
   \<and> SpeechRecognitionModel_forward sample_numerics True
        (SpeechRecognitionModel_init 3 2 256 29 5 default_stride default_dropout sample_weights)
        (sample_tensor [2, 1, 5, 8]) 0 = Inl (LayerNormShape 2 [2, 32, 4, 3])"
proof -
  have s: "shape (sample_tensor [2, 1, 5, 8]) = [2, 1, 5, 8]"
    by (simp add: sample_tensor_def)
  have p: "(0::nat) < 5" "(0::nat) < 8" "odd (5::nat)" "(0::nat) < 3" by simp_all
  from C9_odd_n_feats[OF refl s p(1,2) refl refl, where n_cnn_layers=3 and n_rnn_layers=2
      and rnn_dim=256 and n_class=29 and dropout=default_dropout and w=sample_weights
      and num=sample_numerics and training=True and g=0] p(3,4)
  have "SpeechRecognitionModel_forward sample_numerics True
        (SpeechRecognitionModel_init 3 2 256 29 5 default_stride default_dropout sample_weights)
        (sample_tensor [2, 1, 5, 8]) 0 =
          Inl (LayerNormShape (5 div 2) [2, 32, (8 - 1) div 2 + 1, (5 - 1) div 2 + 1])"
    by blast
  with s p show ?thesis by simp
qed

theorem C9_counterexample:
  "odd (3::nat)
   \<and> rescnn_layers
        (SpeechRecognitionModel_init 0 1 4 5 3 default_stride default_dropout sample_weights) = []
   \<and> SpeechRecognitionModel_forward sample_numerics False
        (SpeechRecognitionModel_init 0 1 4 5 3 default_stride default_dropout sample_weights)
        (sample_tensor [1, 1, 3, 4]) 0 = Inl (LinearShape 32 [1, 2, 64])"
proof -
  have "SpeechRecognitionModel_shape
          (SpeechRecognitionModel_init 0 1 4 5 3 default_stride default_dropout sample_weights)
          [1, 1, 3, 4] = Inl (LinearShape 32 [1, 2, 64])"
    using model_front[OF _ _ _ refl refl refl, where stride=default_stride and f=3 and t=4
        and n_cnn_layers=0 and n_rnn_layers=1 and rnn_dim=4 and n_class=5 and n_feats=3
        and dropout=default_dropout and w=sample_weights and b=1]
    by (simp add: default_stride_def)
  then have "SpeechRecognitionModel_forward sample_numerics False
        (SpeechRecognitionModel_init 0 1 4 5 3 default_stride default_dropout sample_weights)
        (sample_tensor [1, 1, 3, 4]) 0 = Inl (LinearShape 32 [1, 2, 64])"
    using SpeechRecognitionModel_forward_shape[of sample_numerics False
        "SpeechRecognitionModel_init 0 1 4 5 3 default_stride default_dropout sample_weights"
        "sample_tensor [1, 1, 3, 4]" 0]
    by (simp add: shape_of_eq_Inl sample_tensor_def)
  then show ?thesis by (simp add: rescnn_layers_init)
qed

text \<open>
  Claim C10.  In a model built with \<open>n_rnn_layers = 0\<close> the stack of recurrent blocks is the
  identity.  The first linear layer of the classifier expects width \<open>2 * rnn_dim\<close> and the
  linear projection before the stack produces width \<open>rnn_dim\<close>, so when \<open>rnn_dim \<noteq> 0\<close> every
  forward call fails; on an input that passes the stages before, the failure is the shape
  mismatch of that linear layer.  A forward call that returns therefore has
  \<open>n_rnn_layers \<ge> 1\<close>, unless \<open>rnn_dim = 0\<close>, and with \<open>rnn_dim = 0\<close> and no recurrent block
  the forward call does return.
\<close>

theorem C10_no_recurrent_blocks:
  assumes "M = SpeechRecognitionModel_init n_cnn_layers n_rnn_layers rnn_dim n_class n_feats
                 stride dropout w"
  shows "(n_rnn_layers = 0 \<longrightarrow>
            Sequential (BidirectionalGRU_forward num training) (birnn_layers M) x1 g1 =
              Inr (x1, g1))
       \<and> lin_out_features (fully_connected M) = rnn_dim
       \<and> lin_in_features (classifier_0 (classifier M)) = 2 * rnn_dim
       \<and> (n_rnn_layers = 0 \<longrightarrow> rnn_dim \<noteq> 0 \<longrightarrow>
            (\<exists>e. SpeechRecognitionModel_forward num training M x g = Inl e))
       \<and> (n_rnn_layers = 0 \<longrightarrow> rnn_dim \<noteq> 0 \<longrightarrow> shape x = [b, 1, f, t] \<longrightarrow> 0 < stride \<longrightarrow>
            0 < f \<longrightarrow> 0 < t \<longrightarrow> (f - 1) div stride + 1 = n_feats div 2 \<longrightarrow>
            SpeechRecognitionModel_forward num training M x g =
              Inl (LinearShape (rnn_dim * 2) [b, (t - 1) div stride + 1, rnn_dim]))
       \<and> (n_rnn_layers = 0 \<longrightarrow> rnn_dim = 0 \<longrightarrow> shape x = [b, 1, f, t] \<longrightarrow> 0 < stride \<longrightarrow>
            0 < f \<longrightarrow> 0 < t \<longrightarrow> (f - 1) div stride + 1 = n_feats div 2 \<longrightarrow>
            (\<exists>y g'. SpeechRecognitionModel_forward num training M x g = Inr (y, g')
                   \<and> shape y = [b, (t - 1) div stride + 1, n_class]))
       \<and> (SpeechRecognitionModel_forward num training M x g = Inr (y, g') \<longrightarrow>
            1 \<le> n_rnn_layers \<or> rnn_dim = 0)"
proof -
  have id: "Sequential (BidirectionalGRU_forward num training) (birnn_layers M) x1 g1 =
              Inr (x1, g1)" if "n_rnn_layers = 0"
    unfolding assms birnn_layers_init that by simp
  have widths: "lin_out_features (fully_connected M) = rnn_dim"
    "lin_in_features (classifier_0 (classifier M)) = 2 * rnn_dim"
    unfolding assms by (simp_all add: fully_connected_init classifier_init Linear_init_def)
  have sh: "shape_of (SpeechRecognitionModel_forward num training M x g) =
              SpeechRecognitionModel_shape M (shape x)"
    by (rule SpeechRecognitionModel_forward_shape)
  have ret: "1 \<le> n_rnn_layers \<or> rnn_dim = 0"
    if "SpeechRecognitionModel_forward num training M x g = Inr (y, g')"
  proof (cases "n_rnn_layers = 0")
    case True
    from that sh have "SpeechRecognitionModel_shape M (shape x) = Inr (shape y)" by simp
    from model_no_rnn_fails[OF this[unfolded assms True]] show ?thesis by simp
  next
    case False
    then show ?thesis by simp
  qed
  have fails: "\<exists>e. SpeechRecognitionModel_forward num training M x g = Inl e"
    if "n_rnn_layers = 0" "rnn_dim \<noteq> 0"
  proof (cases "SpeechRecognitionModel_forward num training M x g")
    case (Inl e)
    then show ?thesis by blast
  next
    case (Inr yg)
    from that(1) have M0: "M = SpeechRecognitionModel_init n_cnn_layers 0 rnn_dim n_class
        n_feats stride dropout w" unfolding assms by simp
    obtain y0 g0 where "yg = (y0, g0)" by (cases yg)
    with Inr sh have "SpeechRecognitionModel_shape M (shape x) = Inr (shape y0)" by simp
    from model_no_rnn_fails[OF this[unfolded M0]] that(2) show ?thesis by simp
  qed
  have at: "shape_of (SpeechRecognitionModel_forward num training M x g) =
              (if rnn_dim = 0 then Inr [b, (t - 1) div stride + 1, n_class]
               else Inl (LinearShape (rnn_dim * 2) [b, (t - 1) div stride + 1, rnn_dim]))"
    if "n_rnn_layers = 0" "shape x = [b, 1, f, t]" "0 < stride" "0 < f" "0 < t"
      "(f - 1) div stride + 1 = n_feats div 2"
    unfolding SpeechRecognitionModel_forward_shape assms that(1,2)
    by (rule model_shape_no_rnn[OF that(3-6)])
  have err: "SpeechRecognitionModel_forward num training M x g =
              Inl (LinearShape (rnn_dim * 2) [b, (t - 1) div stride + 1, rnn_dim])"
    if "n_rnn_layers = 0" "rnn_dim \<noteq> 0" "shape x = [b, 1, f, t]" "0 < stride" "0 < f" "0 < t"
      "(f - 1) div stride + 1 = n_feats div 2"
    using at[OF that(1,3-7)] that(2) by (simp add: shape_of_eq_Inl)
  have ok: "\<exists>y g'. SpeechRecognitionModel_forward num training M x g = Inr (y, g')
                   \<and> shape y = [b, (t - 1) div stride + 1, n_class]"
    if "n_rnn_layers = 0" "rnn_dim = 0" "shape x = [b, 1, f, t]" "0 < stride" "0 < f" "0 < t"
      "(f - 1) div stride + 1 = n_feats div 2"
    using at[OF that(1,3-7)] that(2) by (simp add: shape_of_eq_Inr)
  from id widths fails err ok ret show ?thesis by blast
qed

theorem C10_no_recurrent_blocks_witness:
  "shape (sample_tensor [2, 1, 128, 300]) = [2, 1, 128, 300]
   \<and> (256::nat) \<noteq> 0 \<and> (0::nat) < 2 \<and> (0::nat) < 128 \<and> (0::nat) < 300
   \<and> ((128::nat) - 1) div 2 + 1 = 128 div 2
   \<and> SpeechRecognitionModel_forward sample_numerics True
        (SpeechRecognitionModel_init 3 0 256 29 128 2 default_dropout sample_weights)
        (sample_tensor [2, 1, 128, 300]) 0 = Inl (LinearShape 512 [2, 150, 256])"
proof -
  have s: "shape (sample_tensor [2, 1, 128, 300]) = [2, 1, 128, 300]"
    by (simp add: sample_tensor_def)
  have p: "(256::nat) \<noteq> 0" "(0::nat) < 2" "(0::nat) < 128" "(0::nat) < 300"
    "((128::nat) - 1) div 2 + 1 = 128 div 2" by simp_all
  from C10_no_recurrent_blocks[OF refl, where n_cnn_layers=3 and n_rnn_layers=0 and rnn_dim=256
      and n_class=29 and n_feats=128 and stride=2 and dropout=default_dropout
      and w=sample_weights and num=sample_numerics and training=True
      and x="sample_tensor [2, 1, 128, 300]" and g=0 and b=2 and f=128 and t=300] s p
  have "SpeechRecognitionModel_forward sample_numerics True
        (SpeechRecognitionModel_init 3 0 256 29 128 2 default_dropout sample_weights)
        (sample_tensor [2, 1, 128, 300]) 0 =
          Inl (LinearShape (256 * 2) [2, (300 - 1) div 2 + 1, 256])"
    by blast
  with s p show ?thesis by simp
qed

section \<open>Where the generator's state can reach the output\<close>

lemma Dropout_forward_quiet:
  "\<not> training \<or> drop_p d = 0 \<Longrightarrow> Dropout_forward num training d x g = (x, g)"
  by (auto simp: Dropout_forward_def)

lemma Dropout_forward_masks:
  assumes "\<And>h h' p s. fst (bernoulli num h p s) = fst (bernoulli num h' p s)"
  shows "fst (Dropout_forward num training d x g) = fst (Dropout_forward num training d x g')"
  using assms[of g "drop_p d" "shape x" g']
  by (auto simp: Dropout_forward_def split: prod.splits)

lemma map_sum_and_then: "map_sum id f (and_then r k) = and_then r (\<lambda>v. map_sum id f (k v))"
  by (cases r) simp_all

lemma and_then_det:
  assumes "map_sum id fst r = map_sum id fst r'"
    and "\<And>y h h'. map_sum id fst (k (y, h)) = map_sum id fst (k (y, h'))"
  shows "map_sum id fst (and_then r k) = map_sum id fst (and_then r' k)"
proof (cases r)
  case (Inl e)
  with assms(1) have "r' = Inl e" by (cases r') auto
  with Inl show ?thesis by simp
next
  case (Inr v)
  obtain y h where v: "v = (y, h)" by (cases v)
  with Inr assms(1) obtain h' where "r' = Inr (y, h')" by (cases r') auto
  with Inr v assms(2)[of y h h'] show ?thesis by simp
qed

lemma and_then_pure_det:
  assumes "\<And>v. map_sum id fst (k v) = map_sum id fst (k' v)"
  shows "map_sum id fst (and_then r k) = map_sum id fst (and_then r k')"
  using assms by (cases r) simp_all

lemma ResidualCNN_forward_det:
  assumes "\<And>x h h'. fst (Dropout_forward num training (dropout1 m) x h) =
             fst (Dropout_forward num training (dropout1 m) x h')"
    and "\<And>x h h'. fst (Dropout_forward num training (dropout2 m) x h) =
             fst (Dropout_forward num training (dropout2 m) x h')"
  shows "map_sum id fst (ResidualCNN_forward num training m x g) =
         map_sum id fst (ResidualCNN_forward num training m x g')"
proof -
  define K1 where "K1 = (\<lambda>x. fst (Dropout_forward num training (dropout1 m) x g))"
  define K2 where "K2 = (\<lambda>x. fst (Dropout_forward num training (dropout2 m) x g))"
  have k: "fst (Dropout_forward num training (dropout1 m) x h) = K1 x"
    "fst (Dropout_forward num training (dropout2 m) x h) = K2 x" for x h
    unfolding K1_def K2_def by (rule assms)+
  show ?thesis
    by (simp add: ResidualCNN_forward_def Let_def case_prod_beta k map_sum_and_then)
qed

lemma BidirectionalGRU_forward_det:
  assumes "\<And>x h h'. fst (Dropout_forward num training (birnn_dropout m) x h) =
             fst (Dropout_forward num training (birnn_dropout m) x h')"
  shows "map_sum id fst (BidirectionalGRU_forward num training m x g) =
         map_sum id fst (BidirectionalGRU_forward num training m x g')"
proof -
  define K where "K = (\<lambda>x. fst (Dropout_forward num training (birnn_dropout m) x g))"
  have k: "fst (Dropout_forward num training (birnn_dropout m) x h) = K x" for x h
    unfolding K_def by (rule assms)
  show ?thesis
    by (simp add: BidirectionalGRU_forward_def case_prod_beta k map_sum_and_then)
qed

lemma Classifier_forward_det:
  assumes "\<And>x h h'. fst (Dropout_forward num training (classifier_2 c) x h) =
             fst (Dropout_forward num training (classifier_2 c) x h')"
  shows "map_sum id fst (Classifier_forward num training c x g) =
         map_sum id fst (Classifier_forward num training c x g')"
proof -
  define K where "K = (\<lambda>x. fst (Dropout_forward num training (classifier_2 c) x g))"
  have k: "fst (Dropout_forward num training (classifier_2 c) x h) = K x" for x h
    unfolding K_def by (rule assms)
  show ?thesis
    by (simp add: Classifier_forward_def case_prod_beta k map_sum_and_then)
qed

lemma Sequential_det:
  assumes "\<And>m x h h'. m \<in> set ms \<Longrightarrow> map_sum id fst (fwd m x h) = map_sum id fst (fwd m x h')"
  shows "map_sum id fst (Sequential fwd ms x g) = map_sum id fst (Sequential fwd ms x g')"
  using assms
proof (induction ms arbitrary: x g g')
  case Nil
  show ?case by simp
next
  case (Cons m ms)
  show ?case
    unfolding Sequential.simps
  proof (rule and_then_det)
    show "map_sum id fst (fwd m x g) = map_sum id fst (fwd m x g')"
      by (rule Cons.prems) simp
    show "map_sum id fst (case (y, h) of (y, g') \<Rightarrow> Sequential fwd ms y g') =
          map_sum id fst (case (y, h') of (y, g') \<Rightarrow> Sequential fwd ms y g')" for y h h'
    proof -
      have "map_sum id fst (Sequential fwd ms y h) = map_sum id fst (Sequential fwd ms y h')"
        by (rule Cons.IH) (rule Cons.prems, simp)
      then show ?thesis by (simp only: prod.case)
    qed
  qed
qed

text \<open>
  \<open>P\<close> holds of the dropout layers whose output does not depend on the generator's state;
  when it holds of every dropout layer of a model, the tensor the forward pass returns, or
  the error it raises, does not depend on the generator's state.
\<close>

lemma SpeechRecognitionModel_forward_det:
  assumes P: "\<And>d x h h'. P d \<Longrightarrow>
                fst (Dropout_forward num training d x h) = fst (Dropout_forward num training d x h')"
    and res: "\<And>r. r \<in> set (rescnn_layers m) \<Longrightarrow> P (dropout1 r) \<and> P (dropout2 r)"
    and rnn: "\<And>u. u \<in> set (birnn_layers m) \<Longrightarrow> P (birnn_dropout u)"
    and cls: "P (classifier_2 (classifier m))"
  shows "map_sum id fst (SpeechRecognitionModel_forward num training m x g) =
         map_sum id fst (SpeechRecognitionModel_forward num training m x g')"
proof -
  have s1: "map_sum id fst (Sequential (ResidualCNN_forward num training) (rescnn_layers m) y h) =
            map_sum id fst (Sequential (ResidualCNN_forward num training) (rescnn_layers m) y h')"
    for y h h'
    by (rule Sequential_det, rule ResidualCNN_forward_det) (auto dest: res intro: P)
  have s2: "map_sum id fst
              (Sequential (BidirectionalGRU_forward num training) (birnn_layers m) y h) =
            map_sum id fst
              (Sequential (BidirectionalGRU_forward num training) (birnn_layers m) y h')"
    for y h h'
    by (rule Sequential_det, rule BidirectionalGRU_forward_det) (auto dest: rnn intro: P)
  have s3: "map_sum id fst (Classifier_forward num training (classifier m) y h) =
            map_sum id fst (Classifier_forward num training (classifier m) y h')" for y h h'
    by (rule Classifier_forward_det) (auto intro: P cls)
  show ?thesis
    unfolding SpeechRecognitionModel_forward_def Let_def
    apply (rule and_then_pure_det)
    apply (rule and_then_det)
     apply (rule s1)
    apply (simp only: prod.case)
    apply (intro and_then_pure_det)
    apply (rule and_then_det)
     apply (rule s2)
    apply (simp only: prod.case)
    apply (rule s3)
    done
qed

section \<open>Determinism of the forward pass\<close>

lemma dropout_layers_init:
  assumes "M = SpeechRecognitionModel_init n_cnn_layers n_rnn_layers rnn_dim n_class n_feats
                 stride dropout w"
  shows "r \<in> set (rescnn_layers M) \<Longrightarrow>
           drop_p (dropout1 r) = dropout \<and> drop_p (dropout2 r) = dropout"
    and "u \<in> set (birnn_layers M) \<Longrightarrow> drop_p (birnn_dropout u) = dropout"
    and "drop_p (classifier_2 (classifier M)) = dropout"
  unfolding assms
  by (auto simp: rescnn_layers_init birnn_layers_init classifier_init ResidualCNN_init_def
      BidirectionalGRU_init_def Dropout_init_def)

text \<open>
  Claim C8.  Two forward calls of the same model (the same parameters) on the same input can
  differ in nothing but the state of the random generator they start from.  In evaluation mode
  they return the same tensor, or raise the same error, whatever the two states; so they do
  in training mode when the model was built with dropout probability 0; and so they do in
  training mode with any dropout probability when the masks that dropout draws do not depend
  on the generator's state: the generator reaches the output through those masks only.
\<close>

theorem C8_determinism:
  "map_sum id fst (SpeechRecognitionModel_forward num False m x g) =
     map_sum id fst (SpeechRecognitionModel_forward num False m x g')
   \<and> map_sum id fst (SpeechRecognitionModel_forward num True
        (SpeechRecognitionModel_init n_cnn_layers n_rnn_layers rnn_dim n_class n_feats stride 0 w)
        x g) =
     map_sum id fst (SpeechRecognitionModel_forward num True
        (SpeechRecognitionModel_init n_cnn_layers n_rnn_layers rnn_dim n_class n_feats stride 0 w)
        x g')
   \<and> ((\<forall>h h' p s. fst (bernoulli num h p s) = fst (bernoulli num h' p s)) \<longrightarrow>
        map_sum id fst (SpeechRecognitionModel_forward num True m x g) =
          map_sum id fst (SpeechRecognitionModel_forward num True m x g'))"
proof (intro conjI impI)
  show "map_sum id fst (SpeechRecognitionModel_forward num False m x g) =
          map_sum id fst (SpeechRecognitionModel_forward num False m x g')"
    by (rule SpeechRecognitionModel_forward_det[where P="\<lambda>d. True"])
      (simp_all add: Dropout_forward_quiet)
next
  let ?M = "SpeechRecognitionModel_init n_cnn_layers n_rnn_layers rnn_dim n_class n_feats
              stride 0 w"
  show "map_sum id fst (SpeechRecognitionModel_forward num True ?M x g) =
          map_sum id fst (SpeechRecognitionModel_forward num True ?M x g')"
    by (rule SpeechRecognitionModel_forward_det[where P="\<lambda>d. drop_p d = 0"])
      (simp_all add: Dropout_forward_quiet dropout_layers_init[OF refl])
next
  assume "\<forall>h h' p s. fst (bernoulli num h p s) = fst (bernoulli num h' p s)"
  then have "fst (Dropout_forward num True d y h) = fst (Dropout_forward num True d y h')"
    for d y h h'
    by (intro Dropout_forward_masks) simp
  then show "map_sum id fst (SpeechRecognitionModel_forward num True m x g) =
          map_sum id fst (SpeechRecognitionModel_forward num True m x g')"
    by (intro SpeechRecognitionModel_forward_det[where P="\<lambda>d. True"]) simp_all
qed

theorem C8_determinism_witness:
  "(\<forall>h h' p s. fst (bernoulli (sample_numerics\<lparr>bernoulli := (\<lambda>g p s. (\<lambda>i. True, Suc g))\<rparr>) h p s)
               = fst (bernoulli (sample_numerics\<lparr>bernoulli := (\<lambda>g p s. (\<lambda>i. True, Suc g))\<rparr>) h' p s))
   \<and> map_sum id fst (SpeechRecognitionModel_forward
          (sample_numerics\<lparr>bernoulli := (\<lambda>g p s. (\<lambda>i. True, Suc g))\<rparr>) True
          (SpeechRecognitionModel_init 3 2 256 29 128 default_stride default_dropout
             sample_weights)
          (sample_tensor [2, 1, 128, 300]) 0) =
     map_sum id fst (SpeechRecognitionModel_forward
          (sample_numerics\<lparr>bernoulli := (\<lambda>g p s. (\<lambda>i. True, Suc g))\<rparr>) True
          (SpeechRecognitionModel_init 3 2 256 29 128 default_stride default_dropout
             sample_weights)
          (sample_tensor [2, 1, 128, 300]) 5)
   \<and> map_sum id fst (SpeechRecognitionModel_forward sample_numerics False
          (SpeechRecognitionModel_init 3 2 256 29 128 default_stride default_dropout
             sample_weights)
          (sample_tensor [2, 1, 128, 300]) 0) =
     map_sum id fst (SpeechRecognitionModel_forward sample_numerics False
          (SpeechRecognitionModel_init 3 2 256 29 128 default_stride default_dropout
             sample_weights)
          (sample_tensor [2, 1, 128, 300]) 5)"
proof -
  let ?num = "sample_numerics\<lparr>bernoulli := (\<lambda>g p s. (\<lambda>i. True, Suc g))\<rparr>"
  let ?M = "SpeechRecognitionModel_init 3 2 256 29 128 default_stride default_dropout
              sample_weights"
  have h: "\<forall>h h' p s. fst (bernoulli ?num h p s) = fst (bernoulli ?num h' p s)"
    by simp
  from C8_determinism[where num="?num" and m="?M" and x="sample_tensor [2, 1, 128, 300]"
      and g=0 and g'=5] h
  have 1: "map_sum id fst (SpeechRecognitionModel_forward ?num True ?M
             (sample_tensor [2, 1, 128, 300]) 0) =
           map_sum id fst (SpeechRecognitionModel_forward ?num True ?M
             (sample_tensor [2, 1, 128, 300]) 5)"
    by blast
  from C8_determinism[where num=sample_numerics and m="?M"
      and x="sample_tensor [2, 1, 128, 300]" and g=0 and g'=5]
  have 2: "map_sum id fst (SpeechRecognitionModel_forward sample_numerics False ?M
             (sample_tensor [2, 1, 128, 300]) 0) =
           map_sum id fst (SpeechRecognitionModel_forward sample_numerics False ?M
             (sample_tensor [2, 1, 128, 300]) 5)"
    by blast
  from h 1 2 show ?thesis by blast
qed

text \<open>
  With a dropout probability other than 0, in training mode, and masks that depend on the
  generator's state, two calls can differ: under the sample numerics the call that starts from
  state 0 keeps what the call that starts from state 5 drops.
\<close>

lemma swap_Suc_0_2: "swap (Suc 0) 2 [a, b, c] = [a, c, b]"
  by (simp add: swap_def eval_nat_numeral)

lemmas forward_defs =
  SpeechRecognitionModel_forward_def SpeechRecognitionModel_init_def
  Conv2d_forward_def Conv2d_init_def conv_spatial_def conv_out_def
  Linear_forward_def Linear_shape_def Linear_init_def
  LayerNorm_forward_def LayerNorm_shape_def LayerNorm_init_def
  BidirectionalGRU_forward_def BidirectionalGRU_init_def GRU_forward_def GRU_init_def
  gru_directions_def
  Classifier_forward_def Dropout_forward_def Dropout_init_def gelu_def
  view_def view_shape_def transpose_t_def transpose_shape_def index_at_def swap_Suc_0_2
  trailing_vector_def sample_numerics_def sample_weights_def sample_tensor_def
  default_stride_def default_dropout_def Let_def

lemma training_dropout_outputs_differ:
  "map_sum id (\<lambda>(y, g). (shape y, elem y [0, 0, 0]))
     (SpeechRecognitionModel_forward sample_numerics True
        (SpeechRecognitionModel_init 0 1 1 2 2 default_stride default_dropout sample_weights)
        (sample_tensor [1, 1, 2, 1]) 0) = Inr ([1, 1, 2], 1)
   \<and> map_sum id (\<lambda>(y, g). (shape y, elem y [0, 0, 0]))
     (SpeechRecognitionModel_forward sample_numerics True
        (SpeechRecognitionModel_init 0 1 1 2 2 default_stride default_dropout sample_weights)
        (sample_tensor [1, 1, 2, 1]) 5) = Inr ([1, 1, 2], 0)"
  by (simp add: forward_defs)

end
